theory Spec2Isabelle
  imports Main
begin

section \<open>NScript: the scripting language of nds-console\<close>

text \<open>
  A shallow embedding of \<^verbatim>\<open>source/nscript.cpp\<close>: the lexer and the recursive-descent
  parser (class \<^verbatim>\<open>NScript::Parser\<close>), the syntax tree (\<^verbatim>\<open>NScript::Node\<close>) and the
  tree-walking evaluator (class \<^verbatim>\<open>NScript::Evaluator\<close>).

  \<^item> A C++ exception \<^verbatim>\<open>throw Error({fragments}, pos)\<close> is the value \<open>Inl (Error fragments pos)\<close>
    of a sum type; \<^verbatim>\<open>panic(msg)\<close> is \<open>Inl (Panic msg)\<close>.
  \<^item> The members of \<^verbatim>\<open>Parser\<close> and of \<^verbatim>\<open>Evaluator\<close> are records that every function
    takes and returns (also beside an error: an exception does not undo a write).
  \<^item> \<^verbatim>\<open>float64\<close> is IEEE 754 binary64 with round-to-nearest-even.
\<close>

subsection \<open>float64\<close>

text \<open>
  A \<^verbatim>\<open>float64\<close> (libnds: \<^verbatim>\<open>typedef double float64\<close>) is a sign with either a finite
  magnitude \<open>m * 2 ^ e\<close>, an infinity, or a NaN. The operations below return finite
  values in the canonical form of the format: \<open>m < 2 ^ 53\<close>, \<open>- 1074 \<le> e \<le> 971\<close>, and
  \<open>2 ^ 52 \<le> m\<close> unless \<open>e = - 1074\<close> (a subnormal or a zero). The sign is \<open>True\<close> for a
  negative value.
\<close>

datatype float64 = Finite bool nat int | Infinity bool | NaN

fun bitlen :: "nat \<Rightarrow> nat" where
  "bitlen n = (if n = 0 then 0 else Suc (bitlen (n div 2)))"

declare bitlen.simps [simp del]

text \<open>
  \<open>round_nearest_even n d\<close> is the integer nearest to \<open>n / d\<close>, the even one of the two
  when \<open>n / d\<close> lies exactly between two integers.
\<close>

definition round_nearest_even :: "nat \<Rightarrow> nat \<Rightarrow> nat" where
  "round_nearest_even n d =
     (let q = n div d; r = n mod d in
      if 2 * r < d then q
      else if d < 2 * r then q + 1
      else if even q then q else q + 1)"

text \<open>
  \<open>floor_log2 n d\<close> is \<open>\<lfloor>log\<^sub>2 (n / d)\<rfloor>\<close>, for \<open>0 < n\<close> and \<open>0 < d\<close>: the difference \<open>k\<close> of
  the bit lengths is that or one more.
\<close>

definition floor_log2 :: "nat \<Rightarrow> nat \<Rightarrow> int" where
  "floor_log2 n d =
     (let k = int (bitlen n) - int (bitlen d) in
      if d * 2 ^ nat k \<le> n * 2 ^ nat (- k) then k else k - 1)"

text \<open>
  \<open>f64_round s n d\<close> rounds the rational \<open>n / d\<close> (with \<open>0 < d\<close>), of sign \<open>s\<close>, to the
  nearest \<^verbatim>\<open>float64\<close>. \<open>e\<close> is the exponent of the last mantissa bit of the result, \<open>m\<close>
  the mantissa; a mantissa that rounds up to \<open>2 ^ 53\<close> is \<open>2 ^ 52\<close> at the next
  exponent, and a value at or beyond \<open>2 ^ 1024 - 2 ^ 970\<close> rounds to an infinity.
\<close>

definition f64_round :: "bool \<Rightarrow> nat \<Rightarrow> nat \<Rightarrow> float64" where
  "f64_round s n d =
     (if n = 0 then Finite s 0 (- 1074)
      else
        let e = max (- 1074) (floor_log2 n d - 52);
            m = round_nearest_even (n * 2 ^ nat (- e)) (d * 2 ^ nat e)
        in if m = 2 ^ 53 then (if 971 < e + 1 then Infinity s else Finite s (2 ^ 52) (e + 1))
           else if 971 < e then Infinity s
           else Finite s m e)"

text \<open>The value \<open>n * 2 ^ x\<close> of sign \<open>s\<close>, rounded.\<close>

definition f64_scaled :: "bool \<Rightarrow> nat \<Rightarrow> int \<Rightarrow> float64" where
  "f64_scaled s n x = f64_round s (n * 2 ^ nat x) (2 ^ nat (- x))"

definition f64_of_nat :: "nat \<Rightarrow> float64" where
  "f64_of_nat n = f64_round False n 1"

definition f64_neg :: "float64 \<Rightarrow> float64" where
  "f64_neg a = (case a of Finite s m e \<Rightarrow> Finite (\<not> s) m e | Infinity s \<Rightarrow> Infinity (\<not> s) | NaN \<Rightarrow> NaN)"

text \<open>
  \<^verbatim>\<open>l + r\<close>: the exact sum, rounded. An exact sum of zero is \<open>+0\<close>, except that
  \<open>(-0) + (-0) = -0\<close>; opposite infinities give a NaN.
\<close>

definition f64_add :: "float64 \<Rightarrow> float64 \<Rightarrow> float64" where
  "f64_add a b =
     (case (a, b) of
        (NaN, _) \<Rightarrow> NaN
      | (_, NaN) \<Rightarrow> NaN
      | (Infinity s, Infinity t) \<Rightarrow> (if s = t then Infinity s else NaN)
      | (Infinity s, _) \<Rightarrow> Infinity s
      | (_, Infinity t) \<Rightarrow> Infinity t
      | (Finite s m e, Finite t n f) \<Rightarrow>
          (let x = min e f;
               i = (if s then - 1 else 1) * int (m * 2 ^ nat (e - x))
                 + (if t then - 1 else 1) * int (n * 2 ^ nat (f - x))
           in if i = 0 then Finite (s \<and> t \<and> m = 0 \<and> n = 0) 0 (- 1074)
              else f64_scaled (i < 0) (nat \<bar>i\<bar>) x))"

definition f64_sub :: "float64 \<Rightarrow> float64 \<Rightarrow> float64" where
  "f64_sub a b = f64_add a (f64_neg b)"

text \<open>\<^verbatim>\<open>l * r\<close>: the exact product, rounded; an infinity times a zero is a NaN.\<close>

definition f64_mul :: "float64 \<Rightarrow> float64 \<Rightarrow> float64" where
  "f64_mul a b =
     (case (a, b) of
        (NaN, _) \<Rightarrow> NaN
      | (_, NaN) \<Rightarrow> NaN
      | (Infinity s, Infinity t) \<Rightarrow> Infinity (s \<noteq> t)
      | (Infinity s, Finite t n f) \<Rightarrow> (if n = 0 then NaN else Infinity (s \<noteq> t))
      | (Finite s m e, Infinity t) \<Rightarrow> (if m = 0 then NaN else Infinity (s \<noteq> t))
      | (Finite s m e, Finite t n f) \<Rightarrow> f64_scaled (s \<noteq> t) (m * n) (e + f))"

text \<open>
  \<^verbatim>\<open>l / r\<close>: the exact quotient, rounded. The evaluator never divides by a zero (it
  raises an error first); the format gives a NaN for \<open>0 / 0\<close> and an infinity otherwise.
\<close>

definition f64_div :: "float64 \<Rightarrow> float64 \<Rightarrow> float64" where
  "f64_div a b =
     (case (a, b) of
        (NaN, _) \<Rightarrow> NaN
      | (_, NaN) \<Rightarrow> NaN
      | (Infinity s, Infinity t) \<Rightarrow> NaN
      | (Infinity s, Finite t n f) \<Rightarrow> Infinity (s \<noteq> t)
      | (Finite s m e, Infinity t) \<Rightarrow> Finite (s \<noteq> t) 0 (- 1074)
      | (Finite s m e, Finite t n f) \<Rightarrow>
          (if n = 0 then (if m = 0 then NaN else Infinity (s \<noteq> t))
           else f64_round (s \<noteq> t) (m * 2 ^ nat (e - f)) (n * 2 ^ nat (f - e))))"

text \<open>\<^verbatim>\<open>r == 0\<close>: true of both zeros, false of a NaN.\<close>

definition f64_is_zero :: "float64 \<Rightarrow> bool" where
  "f64_is_zero a = (case a of Finite s m e \<Rightarrow> m = 0 | _ \<Rightarrow> False)"

text \<open>
  \<^verbatim>\<open>uint64_t(x)\<close>: the conversion discards the fractional part, and C++ leaves it
  undefined when the truncated value is not a \<^verbatim>\<open>uint64_t\<close> (a value \<open>\<le> - 1\<close> or
  \<open>\<ge> 2 ^ 64\<close>, an infinity, a NaN): \<open>None\<close>.
\<close>

definition f64_to_uint64 :: "float64 \<Rightarrow> nat option" where
  "f64_to_uint64 a =
     (case a of
        Finite s m e \<Rightarrow>
          (let t = m * 2 ^ nat e div 2 ^ nat (- e) in
           if (s \<and> 0 < t) \<or> 2 ^ 64 \<le> t then None else Some t)
      | _ \<Rightarrow> None)"

text \<open>\<open>f64_is a n d\<close>: \<open>a\<close> is finite and its exact value is the fraction \<open>n / d\<close>.\<close>

definition f64_is :: "float64 \<Rightarrow> int \<Rightarrow> nat \<Rightarrow> bool" where
  "f64_is a n d =
     (case a of
        Finite s m e \<Rightarrow> (if s then - 1 else 1) * int (m * 2 ^ nat e) * int d = n * 2 ^ nat (- e)
      | _ \<Rightarrow> False)"

subsection \<open>Positions, errors and nodes\<close>

text \<open>
  \<^verbatim>\<open>Position(startPos, endPos)\<close>: a span of offsets into the source text. The offsets
  are \<^verbatim>\<open>uint64_t\<close>; they are natural numbers here, and the one place where the code
  can step below zero (\<^verbatim>\<open>exprIndex--\<close>) writes the wrap-around out. A text has fewer
  than \<open>2 ^ 64\<close> characters, and \<^verbatim>\<open>nextToken\<close> decrements the cursor only after it has
  moved it forward, so no addition wraps on the way from \<^verbatim>\<open>nextToken\<close>.
\<close>

datatype Position = Position (startPos: nat) (endPos: nat)

text \<open>
  How a call ends when it does not return: \<^verbatim>\<open>throw Error({fragments}, pos)\<close>, the fatal
  \<^verbatim>\<open>panic(message)\<close>, or an operation that C++ leaves undefined.
\<close>

datatype fault = Error "string list" Position | Panic string | Undefined string

text \<open>
  \<^verbatim>\<open>enum NodeKind\<close>, each name with a \<open>K\<close> in front: the names themselves are the
  constructors of \<open>Node\<close> below.
\<close>

datatype NodeKind =
    KNum | KString | KBin | KUna | KAssign | KCall
  | KPlus | KMinus | KStar | KSlash | KLPar | KRPar | KComma | KEq
  | KBad | KNone | KIdentifier | KEof

text \<open>
  \<^verbatim>\<open>class Node { NodeKind kind; NodeValue value; Position pos; }\<close>, where the union
  \<^verbatim>\<open>value\<close> holds \<^verbatim>\<open>num\<close>, \<^verbatim>\<open>str\<close>, or a pointer to an owned \<^verbatim>\<open>BinNode(left, right, op)\<close>,
  \<^verbatim>\<open>UnaNode(term, op)\<close>, \<^verbatim>\<open>AssignNode(name, expr)\<close> or \<^verbatim>\<open>CallNode(name, args)\<close>. The kind
  selects the member of the union, so a node is one constructor per kind, with the
  members in the order of the C++ constructors. \<open>None'\<close> and \<open>Plus'\<close> carry a prime
  because HOL has constants of these names. The keyword \<^verbatim>\<open>none\<close> is the only text a
  \<^verbatim>\<open>None\<close> token can hold, and an \<^verbatim>\<open>Eof\<close> or \<^verbatim>\<open>Bad\<close> token is built from its position
  alone.
\<close>

datatype Node =
    Num float64 Position
  | String string Position
  | Bin Node Node Node Position
  | Una Node Node Position
  | Assign Node Node Position
  | Call Node "Node list" Position
  | Plus' string Position
  | Minus string Position
  | Star string Position
  | Slash string Position
  | LPar string Position
  | RPar string Position
  | Comma string Position
  | Eq string Position
  | Bad Position
  | None' Position
  | Identifier string Position
  | Eof Position

fun kind :: "Node \<Rightarrow> NodeKind" where
  "kind (Num _ _) = KNum"
| "kind (String _ _) = KString"
| "kind (Bin _ _ _ _) = KBin"
| "kind (Una _ _ _) = KUna"
| "kind (Assign _ _ _) = KAssign"
| "kind (Call _ _ _) = KCall"
| "kind (Plus' _ _) = KPlus"
| "kind (Minus _ _) = KMinus"
| "kind (Star _ _) = KStar"
| "kind (Slash _ _) = KSlash"
| "kind (LPar _ _) = KLPar"
| "kind (RPar _ _) = KRPar"
| "kind (Comma _ _) = KComma"
| "kind (Eq _ _) = KEq"
| "kind (Bad _) = KBad"
| "kind (None' _) = KNone"
| "kind (Identifier _ _) = KIdentifier"
| "kind (Eof _) = KEof"

fun pos :: "Node \<Rightarrow> Position" where
  "pos (Num _ p) = p"
| "pos (String _ p) = p"
| "pos (Bin _ _ _ p) = p"
| "pos (Una _ _ p) = p"
| "pos (Assign _ _ p) = p"
| "pos (Call _ _ p) = p"
| "pos (Plus' _ p) = p"
| "pos (Minus _ p) = p"
| "pos (Star _ p) = p"
| "pos (Slash _ p) = p"
| "pos (LPar _ p) = p"
| "pos (RPar _ p) = p"
| "pos (Comma _ p) = p"
| "pos (Eq _ p) = p"
| "pos (Bad p) = p"
| "pos (None' p) = p"
| "pos (Identifier _ p) = p"
| "pos (Eof p) = p"

text \<open>
  \<^verbatim>\<open>node.value.str\<close>, for the kinds whose union member is the text; reading it from a
  node of another kind is undefined in C++ (\<open>None\<close>).
\<close>

fun str :: "Node \<Rightarrow> string option" where
  "str (String s _) = Some s"
| "str (Plus' s _) = Some s"
| "str (Minus s _) = Some s"
| "str (Star s _) = Some s"
| "str (Slash s _) = Some s"
| "str (LPar s _) = Some s"
| "str (RPar s _) = Some s"
| "str (Comma s _) = Some s"
| "str (Eq s _) = Some s"
| "str (None' _) = Some ''none''"
| "str (Identifier s _) = Some s"
| "str _ = None"

text \<open>
  The header \<^verbatim>\<open>nscript.h\<close> is not among the sources. What the functions of
  \<^verbatim>\<open>nscript.cpp\<close> call from it, or from the C++ library, and nothing in the sources or
  the specification fixes, is a parameter of the model:
  \<^item> \<open>to_string\<close>: \<^verbatim>\<open>std::to_string(double)\<close>;
  \<^item> \<open>cutTrailingZeros\<close>, \<open>escapedToEscapes\<close>: the helpers of \<^verbatim>\<open>Node::toString\<close>;
  \<^item> \<open>escapeChar\<close>: the character an escape code stands for, or the error for an
    unknown code;
  \<^item> \<open>kindToString\<close>: \<^verbatim>\<open>Node::kindToString\<close>, the name of a kind in error messages.
\<close>

record host =
  to_string :: "float64 \<Rightarrow> string"
  cutTrailingZeros :: "string \<Rightarrow> string"
  escapedToEscapes :: "string \<Rightarrow> string"
  escapeChar :: "char \<Rightarrow> Position \<Rightarrow> fault + char"
  kindToString :: "NodeKind \<Rightarrow> string"

text \<open>The loop of \<^verbatim>\<open>Node::toString\<close> over the arguments of a call: \<^verbatim>\<open>", "\<close> between them.\<close>

fun join_args :: "string list \<Rightarrow> string" where
  "join_args [] = []"
| "join_args [a] = a"
| "join_args (a # b # bs) = a @ '', '' @ join_args (b # bs)"

fun toString :: "host \<Rightarrow> Node \<Rightarrow> string" where
  "toString h (Num v _) = cutTrailingZeros h (to_string h v)"
| "toString h (String s _) = [CHR 0x27] @ escapedToEscapes h s @ [CHR 0x27]"
| "toString h (Bin left right op _) = toString h left @ '' '' @ toString h op @ '' '' @ toString h right"
| "toString h (Una t op _) = toString h op @ toString h t"
| "toString h (Assign name expr _) = toString h name @ '' = '' @ toString h expr"
| "toString h (Call name args _) = toString h name @ ''('' @ join_args (map (toString h) args) @ '')''"
| "toString h (Plus' s _) = s"
| "toString h (Minus s _) = s"
| "toString h (Star s _) = s"
| "toString h (Slash s _) = s"
| "toString h (LPar s _) = s"
| "toString h (RPar s _) = s"
| "toString h (Comma s _) = s"
| "toString h (Eq s _) = s"
| "toString h (Bad _) = []"
| "toString h (None' _) = ''none''"
| "toString h (Identifier s _) = s"
| "toString h (Eof _) = ''<eof>''"

text \<open>\<^verbatim>\<open>std::to_string\<close> of a \<^verbatim>\<open>uint64_t\<close>: the decimal digits.\<close>

fun digits_of :: "nat \<Rightarrow> string" where
  "digits_of n =
     (if n < 10 then [''0123456789'' ! n] else digits_of (n div 10) @ [''0123456789'' ! (n mod 10)])"

declare digits_of.simps [simp del]

subsection \<open>The evaluator\<close>

text \<open>
  The members of \<^verbatim>\<open>Evaluator\<close>: \<open>map'\<close> is \<^verbatim>\<open>std::vector<KeyPair<std::string, Node>> map\<close>,
  the Environment (primed: \<open>map\<close> is a HOL constant). \<open>console\<close> is what \<^verbatim>\<open>iprintf\<close> has
  written to the standard output so far.
\<close>

record Evaluator =
  map' :: "(string \<times> Node) list"
  console :: string

text \<open>
  Modelled from the spec: \<^verbatim>\<open>Node::none(pos)\<close> is declared in the missing header; the
  specification calls its result a \<open>None\<close> value, here the \<open>None\<close> node at \<open>pos\<close>.
\<close>

definition none :: "Position \<Rightarrow> Node" where
  "none p = None' p"

definition expectType :: "host \<Rightarrow> Node \<Rightarrow> NodeKind \<Rightarrow> Position \<Rightarrow> fault + Node" where
  "expectType h node type p =
     (if kind node \<noteq> type
      then Inl (Error [''expected a value with type '', kindToString h type,
                       '' (found '', kindToString h (kind node), '')''] p)
      else Inr node)"

text \<open>A \<^verbatim>\<open>CallNode call\<close> is passed as its two members, \<open>name\<close> and \<open>args\<close>.\<close>

definition expectArgsCount :: "Node \<Rightarrow> Node list \<Rightarrow> nat \<Rightarrow> fault + unit" where
  "expectArgsCount name args count =
     (if length args \<noteq> count
      then Inl (Error [''expected args '', digits_of count,
                       '' (found '', digits_of (length args), '')''] (pos name))
      else Inr ())"

definition builtinPrint :: "host \<Rightarrow> Node list \<Rightarrow> Position \<Rightarrow> Evaluator \<Rightarrow> (fault + Node) \<times> Evaluator" where
  "builtinPrint h args p s =
     (Inr (none p), s\<lparr>console := console s @ concat (map (toString h) args)\<rparr>)"

definition evaluateCallProcess :: "Position \<Rightarrow> fault + Node" where
  "evaluateCallProcess p = Inl (Panic ''evaluateCallProcess not implemented yet'')"

definition evaluateOperationStr :: "host \<Rightarrow> Node \<Rightarrow> string \<Rightarrow> string \<Rightarrow> fault + string" where
  "evaluateOperationStr h op l r =
     (if kind op \<noteq> KPlus
      then Inl (Error [''string does not support bin `'', kindToString h (kind op), ''`''] (pos op))
      else Inr (l @ r))"

definition evaluateOperationNum :: "NodeKind \<Rightarrow> float64 \<Rightarrow> float64 \<Rightarrow> Position \<Rightarrow> fault + float64" where
  "evaluateOperationNum op l r rPos =
     (case op of
        KPlus \<Rightarrow> Inr (f64_add l r)
      | KMinus \<Rightarrow> Inr (f64_sub l r)
      | KStar \<Rightarrow> Inr (f64_mul l r)
      | KSlash \<Rightarrow> (if f64_is_zero r then Inl (Error [''dividing by 0''] rPos) else Inr (f64_div l r))
      | _ \<Rightarrow> Inl (Panic ''unreachable''))"

text \<open>
  \<^verbatim>\<open>evaluateBin\<close> from its check of the kinds on, \<open>left\<close> and \<open>right\<close> being the two
  evaluated operands. After the check the two kinds are the same, so the \<^verbatim>\<open>switch\<close> on
  \<^verbatim>\<open>left.kind\<close> reads \<^verbatim>\<open>value.num\<close> (or \<^verbatim>\<open>value.str\<close>) from both.
\<close>

definition evaluateBin_values :: "host \<Rightarrow> Node \<Rightarrow> Node \<Rightarrow> Node \<Rightarrow> fault + Node" where
  "evaluateBin_values h op left right =
     (if kind left \<noteq> kind right
      then Inl (Error [''unkwnon bin `'', toString h op, ''` between different types (`'',
                       kindToString h (kind left), ''` and `'', kindToString h (kind right), ''`)'']
                      (pos op))
      else
        case (left, right) of
          (Num l lp, Num r rp) \<Rightarrow>
            (case evaluateOperationNum (kind op) l r rp of
               Inl e \<Rightarrow> Inl e
             | Inr v \<Rightarrow> Inr (Num v (Position (startPos lp) (endPos rp))))
        | (String l lp, String r rp) \<Rightarrow>
            (case evaluateOperationStr h op l r of
               Inl e \<Rightarrow> Inl e
             | Inr v \<Rightarrow> Inr (String v (Position (startPos lp) (endPos rp))))
        | _ \<Rightarrow> Inl (Error [''type `'', kindToString h (kind left), ''` does not support bin''] (pos op)))"

text \<open>\<^verbatim>\<open>evaluateUna\<close> from its check of the kind on, \<open>t\<close> being the evaluated operand.\<close>

definition evaluateUna_value :: "host \<Rightarrow> Node \<Rightarrow> Node \<Rightarrow> fault + Node" where
  "evaluateUna_value h op t =
     (case t of
        Num v p \<Rightarrow>
          Inr (Num (f64_mul v (if kind op = KMinus then f64_neg (f64_of_nat 1) else f64_of_nat 1)) p)
      | _ \<Rightarrow> Inl (Error [''type `'', kindToString h (kind t), ''` does not support unary `'',
                          kindToString h (kind op), ''`''] (pos t)))"

text \<open>
  The loop of \<^verbatim>\<open>evaluateAssign\<close> over the Environment: the first pair whose key is the
  name gets the value; when the loop finds none, the pair is pushed at the back.
\<close>

fun assign_pair :: "string \<Rightarrow> Node \<Rightarrow> (string \<times> Node) list \<Rightarrow> (string \<times> Node) list" where
  "assign_pair name v [] = [(name, v)]"
| "assign_pair name v (kv # kvs) =
     (if fst kv = name then (fst kv, v) # kvs else kv # assign_pair name v kvs)"

text \<open>The loop of \<^verbatim>\<open>evaluateIdentifier\<close>: the value of the first pair whose key is the name.\<close>

fun find_pair :: "string \<Rightarrow> (string \<times> Node) list \<Rightarrow> Node option" where
  "find_pair name [] = None"
| "find_pair name (kv # kvs) = (if fst kv = name then Some (snd kv) else find_pair name kvs)"

definition evaluateIdentifier :: "Node \<Rightarrow> Evaluator \<Rightarrow> fault + Node" where
  "evaluateIdentifier identifier s =
     (case str identifier of
        None \<Rightarrow> Inl (Undefined ''value.str of a node without text'')
      | Some name \<Rightarrow>
          (case find_pair name (map' s) of
             Some v \<Rightarrow> Inr v
           | None \<Rightarrow> Inl (Error [''unknown variable''] (pos identifier))))"

text \<open>
  The recursive functions of the evaluator. Each returns its result, or how it failed,
  together with the \<^verbatim>\<open>Evaluator\<close> as the call left it.
\<close>

function (sequential)
    evaluateNode :: "host \<Rightarrow> Node \<Rightarrow> Evaluator \<Rightarrow> (fault + Node) \<times> Evaluator"
and evaluateBin :: "host \<Rightarrow> Node \<Rightarrow> Node \<Rightarrow> Node \<Rightarrow> Evaluator \<Rightarrow> (fault + Node) \<times> Evaluator"
and evaluateUna :: "host \<Rightarrow> Node \<Rightarrow> Node \<Rightarrow> Evaluator \<Rightarrow> (fault + Node) \<times> Evaluator"
and evaluateAssign :: "host \<Rightarrow> Node \<Rightarrow> Node \<Rightarrow> Position \<Rightarrow> Evaluator \<Rightarrow> (fault + Node) \<times> Evaluator"
and evaluateCall :: "host \<Rightarrow> Node \<Rightarrow> Node list \<Rightarrow> Position \<Rightarrow> Evaluator \<Rightarrow> (fault + Node) \<times> Evaluator"
and builtinFloor :: "host \<Rightarrow> Node \<Rightarrow> Node list \<Rightarrow> Evaluator \<Rightarrow> (fault + Node) \<times> Evaluator"
where
  "evaluateNode h (Num v p) s = (Inr (Num v p), s)"
| "evaluateNode h (String v p) s = (Inr (String v p), s)"
| "evaluateNode h (None' p) s = (Inr (None' p), s)"
| "evaluateNode h (Bin left right op p) s = evaluateBin h left right op s"
| "evaluateNode h (Una t op p) s = evaluateUna h t op s"
| "evaluateNode h (Identifier x p) s = (evaluateIdentifier (Identifier x p) s, s)"
| "evaluateNode h (Assign name expr p) s = evaluateAssign h name expr p s"
| "evaluateNode h (Call name args p) s = evaluateCall h name args p s"
| "evaluateNode h node s = (Inl (Panic ''unimplemented evaluateNode for some NodeKind''), s)"
| "evaluateBin h left right op s =
     (case evaluateNode h left s of
        (Inl e, s1) \<Rightarrow> (Inl e, s1)
      | (Inr l, s1) \<Rightarrow>
          (case evaluateNode h right s1 of
             (Inl e, s2) \<Rightarrow> (Inl e, s2)
           | (Inr r, s2) \<Rightarrow> (evaluateBin_values h op l r, s2)))"
| "evaluateUna h t op s =
     (case evaluateNode h t s of
        (Inl e, s1) \<Rightarrow> (Inl e, s1)
      | (Inr v, s1) \<Rightarrow> (evaluateUna_value h op v, s1))"
| "evaluateAssign h name expr p s =
     (case str name of
        None \<Rightarrow> (Inl (Undefined ''value.str of a node without text''), s)
      | Some n \<Rightarrow>
          (case evaluateNode h expr s of
             (Inl e, s1) \<Rightarrow> (Inl e, s1)
           | (Inr v, s1) \<Rightarrow> (Inr (none p), s1\<lparr>map' := assign_pair n v (map' s1)\<rparr>)))"
| "evaluateCall h name args p s =
     (if kind name = KString then (evaluateCallProcess p, s)
      else
        case str name of
          None \<Rightarrow> (Inl (Undefined ''value.str of a node without text''), s)
        | Some n \<Rightarrow>
            if n = ''print'' then builtinPrint h args p s
            else if n = ''floor'' then builtinFloor h name args s
            else (Inl (Error [''unknown builtin function''] (pos name)), s))"
| "builtinFloor h name args s =
     (case expectArgsCount name args 1 of
        Inl e \<Rightarrow> (Inl e, s)
      | Inr _ \<Rightarrow>
          (case evaluateNode h (args ! 0) s of
             (Inl e, s1) \<Rightarrow> (Inl e, s1)
           | (Inr v, s1) \<Rightarrow>
               (case expectType h v KNum (pos (args ! 0)) of
                  Inl e \<Rightarrow> (Inl e, s1)
                | Inr expr \<Rightarrow>
                    (case expr of
                       Num x xp \<Rightarrow>
                         (case f64_to_uint64 x of
                            None \<Rightarrow> (Inl (Undefined ''uint64_t of a float64 out of its range''), s1)
                          | Some u \<Rightarrow> (Inr (Num (f64_of_nat u) xp), s1))
                     | _ \<Rightarrow> (Inl (Undefined ''value.num of a node without a number''), s1)))))"
  by pat_completeness auto
termination
  by (relation "measure (\<lambda>x. case x of
        Inl (Inl (h, node, s)) \<Rightarrow> 2 * size node
      | Inl (Inr (Inl (h, left, right, op, s))) \<Rightarrow> 2 * (size left + size right + size op) + 1
      | Inl (Inr (Inr (h, t, op, s))) \<Rightarrow> 2 * (size t + size op) + 1
      | Inr (Inl (h, name, expr, p, s)) \<Rightarrow> 2 * (size name + size expr) + 1
      | Inr (Inr (Inl (h, name, args, p, s))) \<Rightarrow> 2 * (size name + size_list size args) + 1
      | Inr (Inr (Inr (h, name, args, s))) \<Rightarrow> 2 * (size name + size_list size args))")
     (auto simp: expectArgsCount_def length_Suc_conv split: if_splits)

subsection \<open>The lexer\<close>

text \<open>
  The members of \<^verbatim>\<open>Parser\<close>: the source text, the cursor into it, the token of
  lookahead and the token consumed before it.
\<close>

record Parser =
  expr :: string
  exprIndex :: nat
  curToken :: Node
  prevToken :: Node

text \<open>
  What a function of the parser returns: its result or how it failed, and the \<^verbatim>\<open>Parser\<close>
  as the call left it.
\<close>

type_synonym 'a step = "(fault + 'a) \<times> Parser"

text \<open>
  Modelled from the spec: the character classes and the cursor helpers are inline
  functions of the missing header. The specification says that a number starts with a
  digit and continues with digits and dots, that whitespace is skipped, and that an
  identifier starts with an identifier-start character and continues with
  identifier-continuation characters; \<^verbatim>\<open>collectNumToken\<close> names \<^verbatim>\<open>123hello\<close> and \<^verbatim>\<open>123_\<close> as
  numbers followed by a part of an identifier. So: letters and the underscore, and the
  digits after the first character.
\<close>

definition isDigit :: "char \<Rightarrow> bool" where
  "isDigit c = (c \<in> set ''0123456789'')"

definition isLetter :: "char \<Rightarrow> bool" where
  "isLetter c = (c \<in> set ''abcdefghijklmnopqrstuvwxyzABCDEFGHIJKLMNOPQRSTUVWXYZ'')"

definition isNumChar :: "char \<Rightarrow> bool \<Rightarrow> bool" where
  "isNumChar c isFirstChar = (isDigit c \<or> (\<not> isFirstChar \<and> c = CHR ''.''))"

definition isIdentifierChar :: "char \<Rightarrow> bool \<Rightarrow> bool" where
  "isIdentifierChar c isFirstChar = (isLetter c \<or> c = CHR ''_'' \<or> (\<not> isFirstChar \<and> isDigit c))"

definition isWhitespace :: "char \<Rightarrow> bool" where
  "isWhitespace c = (c \<in> set [CHR '' '', CHR 0x09, CHR 0x0A, CHR 0x0D])"

text \<open>
  Modelled from the spec: \<^verbatim>\<open>eof(offset)\<close>, \<^verbatim>\<open>curChar(offset)\<close> and \<^verbatim>\<open>curPos(offset)\<close> of the
  missing header, from how \<^verbatim>\<open>nscript.cpp\<close> uses them: the cursor plus the offset is at
  or past the end; the character there (the terminating NUL at the end, and wherever
  else the text has no character); the one-character span there.
\<close>

definition eof :: "Parser \<Rightarrow> nat \<Rightarrow> bool" where
  "eof p offset = (length (expr p) \<le> exprIndex p + offset)"

definition curChar :: "Parser \<Rightarrow> int \<Rightarrow> char" where
  "curChar p offset =
     (let i = int (exprIndex p) + offset in
      if 0 \<le> i \<and> nat i < length (expr p) then expr p ! nat i else CHR 0x00)"

definition curPos :: "Parser \<Rightarrow> nat \<Rightarrow> Position" where
  "curPos p offset = Position (exprIndex p + offset) (exprIndex p + offset + 1)"

text \<open>Modelled from the spec: \<^verbatim>\<open>eatWhitespaces()\<close> moves the cursor past the whitespace.\<close>

definition eatWhitespaces :: "Parser \<Rightarrow> Parser" where
  "eatWhitespaces p =
     p\<lparr>exprIndex := exprIndex p + length (takeWhile isWhitespace (drop (exprIndex p) (expr p)))\<rparr>"

text \<open>
  \<^verbatim>\<open>collectSequence(checker)\<close>: the \<^verbatim>\<open>while\<close> loop, with the string \<open>r\<close> built so far, and
  then \<^verbatim>\<open>exprIndex--\<close>, which on a \<^verbatim>\<open>uint64_t\<close> of zero wraps around.
\<close>

function collectSequence_loop :: "(Parser \<Rightarrow> bool) \<Rightarrow> Parser \<Rightarrow> string \<Rightarrow> string \<times> Parser" where
  "collectSequence_loop checker p r =
     (if \<not> eof p 0 \<and> checker p
      then collectSequence_loop checker (p\<lparr>exprIndex := exprIndex p + 1\<rparr>) (r @ [curChar p 0])
      else (r, p))"
  by pat_completeness auto
termination
  by (relation "measure (\<lambda>(checker, p, r). length (expr p) - exprIndex p)") (auto simp: eof_def)

declare collectSequence_loop.simps [simp del]

definition collectSequence :: "(Parser \<Rightarrow> bool) \<Rightarrow> Parser \<Rightarrow> string \<times> Parser" where
  "collectSequence checker p =
     (case collectSequence_loop checker p [] of
        (r, p') \<Rightarrow> (r, p'\<lparr>exprIndex := (if exprIndex p' = 0 then 2 ^ 64 - 1 else exprIndex p' - 1)\<rparr>))"

definition collectIdentifierToken :: "Parser \<Rightarrow> Node \<times> Parser" where
  "collectIdentifierToken p =
     (let startPos = exprIndex p in
      case collectSequence (\<lambda>q. isIdentifierChar (curChar q 0) False) p of
        (v, p') \<Rightarrow> (Identifier v (Position startPos (exprIndex p' + 1)), p'))"

definition convertToKeywordWhenPossible :: "Node \<Rightarrow> Node" where
  "convertToKeywordWhenPossible token =
     (case token of
        Identifier v p \<Rightarrow> (if v = ''none'' then None' p else token)
      | _ \<Rightarrow> token)"

text \<open>
  \<^verbatim>\<open>atof\<close> on the texts \<^verbatim>\<open>collectNumToken\<close> passes to it, digits and dots: the longest
  prefix \<open>digits\<close> or \<open>digits.digits\<close> is read as a decimal fraction and rounded to the
  nearest \<^verbatim>\<open>float64\<close>.
\<close>

definition digit_val :: "char \<Rightarrow> nat" where
  "digit_val c = of_char c - 48"

definition decimal :: "string \<Rightarrow> nat" where
  "decimal ds = foldl (\<lambda>a c. 10 * a + digit_val c) 0 ds"

definition atof :: "string \<Rightarrow> float64" where
  "atof seq =
     (let ip = takeWhile isDigit seq;
          rest = dropWhile isDigit seq;
          fp = (case rest of [] \<Rightarrow> [] | c # cs \<Rightarrow> if c = CHR ''.'' then takeWhile isDigit cs else [])
      in f64_round False (decimal (ip @ fp)) (10 ^ length fp))"

text \<open>
  \<^verbatim>\<open>collectNumToken\<close>. \<^verbatim>\<open>nextToken\<close> calls it on a digit, so \<open>seq\<close> is not empty; on an
  empty \<open>seq\<close> the index \<^verbatim>\<open>seq.length() - 1\<close> is out of range.
\<close>

definition collectNumToken :: "Parser \<Rightarrow> Node step" where
  "collectNumToken p =
     (let startPos = exprIndex p in
      case collectSequence (\<lambda>q. isNumChar (curChar q 0) False) p of
        (seq, p') \<Rightarrow>
          (let pos = Position startPos (exprIndex p' + 1) in
           if 1 < count_list seq CHR ''.''
           then (Inl (Error [''number cannot include more than one dot''] pos), p')
           else if seq = [] then (Inl (Undefined ''seq[seq.length() - 1] of an empty seq''), p')
           else if last seq = CHR ''.''
           then (Inl (Error [''number cannot end with a dot (correction: `'', butlast seq, ''`)''] pos), p')
           else if \<not> eof p' 1 \<and> isIdentifierChar (curChar p' 1) False
           then (Inl (Error [''number cannot include part of identifier (correction: `'', seq, '' '',
                             [curChar p' 1], ''...`)'']
                            (Position (startPos) (endPos (curPos p' 1)))), p')
           else (Inr (Num (atof seq) pos), p')))"

text \<open>
  \<^verbatim>\<open>escapesToEscaped(s, pos)\<close>, the loop from index \<open>i\<close> on: a backslash and the
  character after it (the terminating NUL when the backslash is the last character)
  become one character.
\<close>

fun escapesToEscaped_from :: "host \<Rightarrow> string \<Rightarrow> Position \<Rightarrow> nat \<Rightarrow> fault + string" where
  "escapesToEscaped_from h [] p i = Inr []"
| "escapesToEscaped_from h (c # cs) p i =
     (if c = CHR 0x5C
      then
        (case escapeChar h (case cs of [] \<Rightarrow> CHR 0x00 | d # ds \<Rightarrow> d)
                (Position (startPos p + i) (startPos p + i + 1)) of
           Inl e \<Rightarrow> Inl e
         | Inr x \<Rightarrow> (case escapesToEscaped_from h (tl cs) p (i + 2) of Inl e \<Rightarrow> Inl e | Inr t \<Rightarrow> Inr (x # t)))
      else (case escapesToEscaped_from h cs p (i + 1) of Inl e \<Rightarrow> Inl e | Inr t \<Rightarrow> Inr (c # t)))"

definition escapesToEscaped :: "host \<Rightarrow> string \<Rightarrow> Position \<Rightarrow> fault + string" where
  "escapesToEscaped h s p = escapesToEscaped_from h s p 0"

definition collectStringToken :: "host \<Rightarrow> Parser \<Rightarrow> Node step" where
  "collectStringToken h p =
     (let p1 = p\<lparr>exprIndex := exprIndex p + 1\<rparr>;
          startPos = exprIndex p1 - 1
      in case collectSequence
                (\<lambda>q. curChar q 0 \<noteq> CHR 0x27 \<or> (curChar q (- 1) = CHR 0x5C \<and> curChar q (- 2) \<noteq> CHR 0x5C)) p1 of
           (seq, p2) \<Rightarrow>
             (let pos = Position startPos (exprIndex p2 + 2);
                  p3 = p2\<lparr>exprIndex := exprIndex p2 + 1\<rparr>
              in if eof p3 0 then (Inl (Error [''unclosed string''] (Position startPos (exprIndex p3))), p3)
                 else case escapesToEscaped h seq pos of
                        Inl e \<Rightarrow> (Inl e, p3)
                      | Inr v \<Rightarrow> (Inr (String v pos), p3)))"

text \<open>
  \<^verbatim>\<open>Node(NodeKind(c), { .str = c }, curPos())\<close> for one of the eight punctuation
  characters: the kind is the character's code.
\<close>

definition punctuation :: "char \<Rightarrow> Position \<Rightarrow> Node" where
  "punctuation c p =
     (if c = CHR ''+'' then Plus' [c] p
      else if c = CHR ''-'' then Minus [c] p
      else if c = CHR ''*'' then Star [c] p
      else if c = CHR ''/'' then Slash [c] p
      else if c = CHR ''('' then LPar [c] p
      else if c = CHR '')'' then RPar [c] p
      else if c = CHR '','' then Comma [c] p
      else Eq [c] p)"

text \<open>
  \<^verbatim>\<open>nextToken\<close>. Modelled from the spec: the token \<^verbatim>\<open>Node(curPos())\<close> that it starts from
  is built by a constructor of the missing header; the specification says that a
  character that starts no token yields a \<open>Bad\<close> token. Its text, which only the
  message of an "unexpected token" error reads, is taken to be empty in \<open>toString\<close>. An
  exception leaves the function before its \<^verbatim>\<open>exprIndex++\<close>.
\<close>

definition nextToken :: "host \<Rightarrow> Parser \<Rightarrow> Node step" where
  "nextToken h p =
     (let p0 = eatWhitespaces p in
      if eof p0 0 then (Inr (Eof (curPos p0 0)), p0)
      else
        let c = curChar p0 0;
            r = (if isIdentifierChar c True
                 then (case collectIdentifierToken p0 of (t, p1) \<Rightarrow> (Inr (convertToKeywordWhenPossible t), p1))
                 else if isNumChar c True then collectNumToken p0
                 else if c = CHR 0x27 then collectStringToken h p0
                 else if c \<in> set ''+-*/(),='' then (Inr (punctuation c (curPos p0 0)), p0)
                 else (Inr (Bad (curPos p0 0)), p0))
        in case r of
             (Inl e, p1) \<Rightarrow> (Inl e, p1)
           | (Inr t, p1) \<Rightarrow> (Inr t, p1\<lparr>exprIndex := exprIndex p1 + 1\<rparr>))"

subsection \<open>The parser\<close>

text \<open>
  The parser is recursive through \<^verbatim>\<open>expectTerm\<close>, and nothing in its text bounds the
  depth: every recursive function below counts down a fuel \<open>n\<close>, and \<open>None\<close> says that
  the fuel ran out before the call returned. \<open>and_then\<close> runs the second step on the
  result of the first, unless the first ran out of fuel or raised.
\<close>

definition and_then :: "'a step option \<Rightarrow> ('a \<Rightarrow> Parser \<Rightarrow> 'b step option) \<Rightarrow> 'b step option" where
  "and_then r f =
     (case r of
        None \<Rightarrow> None
      | Some (Inl e, p) \<Rightarrow> Some (Inl e, p)
      | Some (Inr a, p) \<Rightarrow> f a p)"

text \<open>
  Modelled from the spec: \<^verbatim>\<open>advance()\<close>, \<^verbatim>\<open>getCurAndAdvance()\<close>, \<^verbatim>\<open>eofToken()\<close> and
  \<^verbatim>\<open>expectTokenAndAdvance(kind)\<close> are inline functions of the missing header. The
  specification: one token of lookahead is held as the current token, and the token
  consumed before it is retained; a missing \<^verbatim>\<open>)\<close> is an "unexpected token" error.
\<close>

definition advance :: "host \<Rightarrow> Parser \<Rightarrow> unit step" where
  "advance h p =
     (case nextToken h (p\<lparr>prevToken := curToken p\<rparr>) of
        (Inl e, p') \<Rightarrow> (Inl e, p')
      | (Inr t, p') \<Rightarrow> (Inr (), p'\<lparr>curToken := t\<rparr>))"

definition getCurAndAdvance :: "host \<Rightarrow> Parser \<Rightarrow> Node step" where
  "getCurAndAdvance h p =
     (case advance h p of
        (Inl e, p') \<Rightarrow> (Inl e, p')
      | (Inr _, p') \<Rightarrow> (Inr (prevToken p'), p'))"

definition eofToken :: "Parser \<Rightarrow> bool" where
  "eofToken p = (kind (curToken p) = KEof)"

definition expectTokenAndAdvance :: "host \<Rightarrow> NodeKind \<Rightarrow> Parser \<Rightarrow> unit step" where
  "expectTokenAndAdvance h k p =
     (if kind (curToken p) \<noteq> k
      then (Inl (Error [''unexpected token (found `'', toString h (curToken p), ''`)''] (pos (curToken p))), p)
      else advance h p)"

text \<open>
  \<^verbatim>\<open>expectBinaryOrTerm(expector, operators)\<close>: the \<^verbatim>\<open>while\<close> loop with \<open>left\<close> as built
  so far, and the function.
\<close>

fun expectBinaryOrTerm_loop ::
  "nat \<Rightarrow> host \<Rightarrow> (Parser \<Rightarrow> Node step option) \<Rightarrow> NodeKind list \<Rightarrow> Node \<Rightarrow> Parser \<Rightarrow> Node step option" where
  "expectBinaryOrTerm_loop 0 h expector operators left p = None"
| "expectBinaryOrTerm_loop (Suc n) h expector operators left p =
     (if \<not> eofToken p \<and> kind (curToken p) \<in> set operators
      then and_then (Some (getCurAndAdvance h p)) (\<lambda>op p1.
           and_then (expector p1) (\<lambda>right p2.
             expectBinaryOrTerm_loop n h expector operators
               (Bin left right op (Position (startPos (pos left)) (endPos (pos right)))) p2))
      else Some (Inr left, p))"

definition expectBinaryOrTerm ::
  "nat \<Rightarrow> host \<Rightarrow> (Parser \<Rightarrow> Node step option) \<Rightarrow> NodeKind list \<Rightarrow> Parser \<Rightarrow> Node step option" where
  "expectBinaryOrTerm n h expector operators p =
     and_then (expector p) (\<lambda>left p1. expectBinaryOrTerm_loop n h expector operators left p1)"

text \<open>
  \<^verbatim>\<open>collectAssignNode(name)\<close> and \<^verbatim>\<open>collectCallNode(name)\<close> call \<^verbatim>\<open>expectExpression\<close>, which
  calls them back through \<^verbatim>\<open>expectTerm\<close>: they take it as the argument \<open>expression\<close>.
\<close>

definition collectAssignNode ::
  "host \<Rightarrow> (Parser \<Rightarrow> Node step option) \<Rightarrow> Node \<Rightarrow> Parser \<Rightarrow> Node step option" where
  "collectAssignNode h expression name p =
     (if kind name \<noteq> KIdentifier
      then Some (Inl (Error [''expected an identifier when assigning''] (pos name)), p)
      else and_then (Some (advance h p)) (\<lambda>_ p1.
           and_then (expression p1) (\<lambda>e p2.
             Some (Inr (Assign name e (Position (startPos (pos name)) (endPos (pos e)))), p2))))"

fun collectCallNode_loop ::
  "nat \<Rightarrow> host \<Rightarrow> (Parser \<Rightarrow> Node step option) \<Rightarrow> Node \<Rightarrow> nat \<Rightarrow> Node list \<Rightarrow> Parser \<Rightarrow> Node step option" where
  "collectCallNode_loop 0 h expression name start args p = None"
| "collectCallNode_loop (Suc n) h expression name start args p =
     (if eofToken p
      then Some (Inl (Error [''unclosed call parameters list''] (Position start (endPos (pos (prevToken p))))), p)
      else if kind (curToken p) = KRPar
      then and_then (Some (advance h p)) (\<lambda>_ p1.
             Some (Inr (Call name args (Position (startPos (pos name)) (endPos (pos (prevToken p1))))), p1))
      else and_then (if 0 < length args then Some (expectTokenAndAdvance h KComma p) else Some (Inr (), p)) (\<lambda>_ p1.
           and_then (expression p1) (\<lambda>a p2.
             collectCallNode_loop n h expression name start (args @ [a]) p2)))"

definition collectCallNode ::
  "nat \<Rightarrow> host \<Rightarrow> (Parser \<Rightarrow> Node step option) \<Rightarrow> Node \<Rightarrow> Parser \<Rightarrow> Node step option" where
  "collectCallNode n h expression name p =
     (if kind name \<noteq> KIdentifier \<and> kind name \<noteq> KString
      then Some (Inl (Error [''expected string or identifier call name''] (pos name)), p)
      else
        let start = startPos (pos (curToken p)) in
        and_then (Some (advance h p)) (\<lambda>_ p1. collectCallNode_loop n h expression name start [] p1))"

text \<open>
  Modelled from the spec: \<^verbatim>\<open>expectExpression()\<close> is an inline function of the missing
  header. The specification gives the grammar \<open>expression := term (('+' | '-') term)*\<close>,
  \<open>term := factor (('*' | '/') factor)*\<close>, each level the binary-or-term combinator over
  the next tighter one, and \<^verbatim>\<open>expectTerm\<close> the factor. \<open>factor\<close> is what \<^verbatim>\<open>expectTerm\<close>
  is at the fuel of the caller.
\<close>

definition expectExpression_of ::
  "nat \<Rightarrow> host \<Rightarrow> (Parser \<Rightarrow> Node step option) \<Rightarrow> Parser \<Rightarrow> Node step option" where
  "expectExpression_of n h factor =
     expectBinaryOrTerm n h (expectBinaryOrTerm n h factor [KStar, KSlash]) [KPlus, KMinus]"

text \<open>
  \<^verbatim>\<open>expectTerm\<close>: the \<^verbatim>\<open>switch\<close> on the kind of the consumed token gives the term, and
  the token after it decides whether the term is the name of a call or of an
  assignment.
\<close>

primrec expectTerm :: "nat \<Rightarrow> host \<Rightarrow> Parser \<Rightarrow> Node step option" where
  "expectTerm 0 h p = None"
| "expectTerm (Suc n) h p =
     and_then (Some (getCurAndAdvance h p)) (\<lambda>tok p1.
     and_then
       (if kind tok \<in> set [KIdentifier, KNum, KString, KNone] then Some (Inr (prevToken p1), p1)
        else if kind tok \<in> set [KPlus, KMinus]
        then (let op = prevToken p1 in
              and_then (expectTerm n h p1) (\<lambda>t p2.
                Some (Inr (Una t op (Position (startPos (pos op)) (endPos (pos t)))), p2)))
        else if kind tok = KLPar
        then and_then (expectExpression_of n h (expectTerm n h) p1) (\<lambda>t p2.
             and_then (Some (expectTokenAndAdvance h KRPar p2)) (\<lambda>_ p3. Some (Inr t, p3)))
        else Some (Inl (Error [''unexpected token (found `'', toString h (prevToken p1), ''`)'']
                              (pos (prevToken p1))), p1))
       (\<lambda>t p2.
          if kind (curToken p2) = KLPar then collectCallNode n h (expectExpression_of n h (expectTerm n h)) t p2
          else if kind (curToken p2) = KEq then collectAssignNode h (expectExpression_of n h (expectTerm n h)) t p2
          else Some (Inr t, p2)))"

definition expectExpression :: "nat \<Rightarrow> host \<Rightarrow> Parser \<Rightarrow> Node step option" where
  "expectExpression n h = expectExpression_of n h (expectTerm n h)"

text \<open>
  Modelled from the spec: the constructor \<^verbatim>\<open>Parser(expr)\<close> and the entry point of the
  parser are in the missing header. The parser starts at offset 0 and reads the first
  token into the lookahead; parsing is one call of \<^verbatim>\<open>expectExpression\<close>.
\<close>

definition initial :: "string \<Rightarrow> Parser" where
  "initial src = \<lparr>expr = src, exprIndex = 0, curToken = Bad (Position 0 0), prevToken = Bad (Position 0 0)\<rparr>"

definition parse :: "nat \<Rightarrow> host \<Rightarrow> string \<Rightarrow> Node step option" where
  "parse n h src = and_then (Some (advance h (initial src))) (\<lambda>_ p. expectExpression n h p)"

text \<open>
  Modelled from the spec: the evaluate entry point, "given source text and an
  Environment, returns either a final Node value or an error". A text that does not
  parse leaves the Evaluator as it was.
\<close>

definition evaluate :: "nat \<Rightarrow> host \<Rightarrow> string \<Rightarrow> Evaluator \<Rightarrow> ((fault + Node) \<times> Evaluator) option" where
  "evaluate n h src s =
     (case parse n h src of
        None \<Rightarrow> None
      | Some (Inl e, p) \<Rightarrow> Some (Inl e, s)
      | Some (Inr node, p) \<Rightarrow> Some (evaluateNode h node s))"

subsection \<open>The vocabulary of the properties\<close>

text \<open>The names bound in the Environment, in its order.\<close>

definition names :: "Evaluator \<Rightarrow> string list" where
  "names s = map fst (map' s)"

text \<open>The Environment a session starts with, and a console nothing was written to.\<close>

definition fresh :: Evaluator where
  "fresh = \<lparr>map' = [], console = []\<rparr>"

text \<open>
  A host whose library functions render nothing and change nothing, for a run that is
  stated at one host; such a run is the same at every host.
\<close>

definition plain_host :: host where
  "plain_host = \<lparr>to_string = (\<lambda>v. []), cutTrailingZeros = (\<lambda>t. t), escapedToEscapes = (\<lambda>t. t),
                  escapeChar = (\<lambda>c p. Inr c), kindToString = (\<lambda>k. [])\<rparr>"

text \<open>
  A session: the nodes of a sequence of evaluate calls, evaluated one after the other
  against the same \<^verbatim>\<open>Evaluator\<close>, whether a call returns or raises.
\<close>

fun evaluateNodes :: "host \<Rightarrow> Node list \<Rightarrow> Evaluator \<Rightarrow> Evaluator" where
  "evaluateNodes h [] s = s"
| "evaluateNodes h (e # es) s = evaluateNodes h es (snd (evaluateNode h e s))"

text \<open>A node that contains no \<open>Assign\<close> node.\<close>

fun no_assign :: "Node \<Rightarrow> bool" where
  "no_assign (Assign _ _ _) = False"
| "no_assign (Bin left right op _) = (no_assign left \<and> no_assign right \<and> no_assign op)"
| "no_assign (Una t op _) = (no_assign t \<and> no_assign op)"
| "no_assign (Call name args _) = (no_assign name \<and> list_all no_assign args)"
| "no_assign _ = True"

subsection \<open>Running the model\<close>

text \<open>
  The rules by which the simplifier runs the definitions on a concrete text. A step is
  looked into only once the step before it has a value: this is what the weak
  congruence rules say.
\<close>

lemma and_then_simps:
  "and_then None f = None"
  "and_then (Some (Inl e, p)) f = Some (Inl e, p)"
  "and_then (Some (Inr a, p)) f = f a p"
  by (simp_all add: and_then_def)

lemma and_then_cong_weak: "r = r' \<Longrightarrow> and_then r f = and_then r' f"
  by simp

lemma f64_add_Finite:
  "f64_add (Finite s m e) (Finite t n f) =
     (let x = min e f;
          i = (if s then - 1 else 1) * int (m * 2 ^ nat (e - x))
            + (if t then - 1 else 1) * int (n * 2 ^ nat (f - x))
      in if i = 0 then Finite (s \<and> t \<and> m = 0 \<and> n = 0) 0 (- 1074)
         else f64_scaled (i < 0) (nat \<bar>i\<bar>) x)"
  by (simp add: f64_add_def)

lemma f64_mul_Finite: "f64_mul (Finite s m e) (Finite t n f) = f64_scaled (s \<noteq> t) (m * n) (e + f)"
  by (simp add: f64_mul_def)

lemma f64_div_Finite:
  "f64_div (Finite s m e) (Finite t n f) =
     (if n = 0 then (if m = 0 then NaN else Infinity (s \<noteq> t))
      else f64_round (s \<noteq> t) (m * 2 ^ nat (e - f)) (n * 2 ^ nat (f - e)))"
  by (simp add: f64_div_def)

lemma f64_neg_Finite: "f64_neg (Finite s m e) = Finite (\<not> s) m e"
  by (simp add: f64_neg_def)

lemma f64_is_zero_Finite: "f64_is_zero (Finite s m e) = (m = 0)"
  by (simp add: f64_is_zero_def)

lemma f64_to_uint64_Finite:
  "f64_to_uint64 (Finite s m e) =
     (let t = m * 2 ^ nat e div 2 ^ nat (- e) in
      if (s \<and> 0 < t) \<or> 2 ^ 64 \<le> t then None else Some t)"
  by (simp add: f64_to_uint64_def)

lemma f64_is_Finite:
  "f64_is (Finite s m e) n d = ((if s then - 1 else 1) * int (m * 2 ^ nat e) * int d = n * 2 ^ nat (- e))"
  by (simp add: f64_is_def)

lemmas weak =
  and_then_cong_weak let_weak_cong prod.case_cong_weak sum.case_cong_weak option.case_cong_weak
  list.case_cong_weak float64.case_cong_weak Node.case_cong_weak NodeKind.case_cong_weak

lemmas f64_run =
  atof_def decimal_def digit_val_def isDigit_def floor_log2_def f64_round_def f64_scaled_def f64_of_nat_def
  f64_add_Finite f64_sub_def f64_mul_Finite f64_div_Finite f64_neg_Finite f64_is_zero_Finite
  f64_to_uint64_Finite f64_is_Finite round_nearest_even_def bitlen.simps Let_def

lemmas lex_run =
  nextToken_def eatWhitespaces_def isWhitespace_def eof_def curChar_def isIdentifierChar_def
  isLetter_def isDigit_def isNumChar_def collectNumToken_def collectSequence_def
  collectSequence_loop.simps collectIdentifierToken_def collectStringToken_def
  convertToKeywordWhenPossible_def punctuation_def escapesToEscaped_def Let_def curPos_def

lemmas parse_run =
  parse_def initial_def advance_def getCurAndAdvance_def eofToken_def expectTokenAndAdvance_def
  and_then_simps expectBinaryOrTerm_def expectExpression_of_def expectExpression_def
  collectAssignNode_def collectCallNode_def

lemmas eval_run =
  evaluate_def evaluateBin_values_def evaluateUna_value_def evaluateOperationNum_def
  evaluateOperationStr_def evaluateIdentifier_def expectType_def expectArgsCount_def
  builtinPrint_def evaluateCallProcess_def none_def fresh_def digits_of.simps

lemma Suc_Suc_0: "Suc (Suc 0) = 2"
  by simp

lemma fuel5: "5 \<le> n \<Longrightarrow> \<exists>m. n = Suc (Suc (Suc (Suc (Suc m))))"
  by presburger

subsection \<open>Arithmetic on whole numbers\<close>

text \<open>
  Rounding finds the exact value when the value is a \<^verbatim>\<open>float64\<close>: on whole numbers below
  \<open>2 ^ 53\<close> the sum, the difference and the product are exact as long as they stay below
  \<open>2 ^ 53\<close>. First the bit length, and that rounding \<open>n / d\<close> is rounding
  \<open>(n * 2 ^ j) / (d * 2 ^ j)\<close>.
\<close>

lemma bitlen_0: "bitlen 0 = 0"
  by (simp add: bitlen.simps)

lemma bitlen_pos: "0 < n \<Longrightarrow> bitlen n = Suc (bitlen (n div 2))"
  by (subst bitlen.simps) simp

lemma bitlen_bounds: "0 < n \<Longrightarrow> 2 ^ (bitlen n - 1) \<le> n \<and> n < 2 ^ bitlen n"
proof (induction n rule: bitlen.induct)
  case (1 n)
  show ?case
  proof (cases "n div 2 = 0")
    case True
    with "1.prems" have "n = 1" by presburger
    then show ?thesis by (simp add: bitlen_pos bitlen_0)
  next
    case False
    then have h: "0 < n div 2" by simp
    from "1.IH" [OF _ h] "1.prems"
    have ih: "2 ^ (bitlen (n div 2) - 1) \<le> n div 2" "n div 2 < 2 ^ bitlen (n div 2)" by auto
    have b: "bitlen n = Suc (bitlen (n div 2))" using "1.prems" by (rule bitlen_pos)
    have p: "0 < bitlen (n div 2)" using h by (simp add: bitlen_pos)
    then have "(2::nat) ^ bitlen (n div 2) = 2 * 2 ^ (bitlen (n div 2) - 1)"
      by (cases "bitlen (n div 2)") simp_all
    with ih have "2 ^ bitlen (n div 2) \<le> n" by presburger
    moreover have "n < 2 * 2 ^ bitlen (n div 2)" using ih(2) by presburger
    ultimately show ?thesis by (simp add: b)
  qed
qed

lemma bitlen_double: "0 < n \<Longrightarrow> bitlen (2 * n) = Suc (bitlen n)"
  by (subst bitlen.simps) simp

lemma bitlen_times_pow2: "0 < n \<Longrightarrow> bitlen (n * 2 ^ j) = bitlen n + j"
proof (induction j)
  case 0
  then show ?case by simp
next
  case (Suc j)
  have "bitlen (n * 2 ^ Suc j) = bitlen (2 * (n * 2 ^ j))" by (simp add: mult.commute mult.left_commute)
  also have "\<dots> = Suc (bitlen (n * 2 ^ j))" using Suc.prems by (intro bitlen_double) simp
  finally show ?case using Suc by simp
qed

lemma bitlen_le: "0 < n \<Longrightarrow> n < 2 ^ k \<Longrightarrow> bitlen n \<le> k"
proof (rule ccontr)
  assume n: "0 < n" "n < 2 ^ k" and "\<not> bitlen n \<le> k"
  then have "k \<le> bitlen n - 1" by simp
  then have "(2::nat) ^ k \<le> 2 ^ (bitlen n - 1)" by (intro power_increasing) simp_all
  with bitlen_bounds [OF n(1)] n(2) show False by linarith
qed

lemma round_nearest_even_scale:
  "0 < c \<Longrightarrow> round_nearest_even (n * c) (d * c) = round_nearest_even n d"
  by (simp add: round_nearest_even_def Let_def mod_mult_mult2 flip: mult.assoc)

lemma round_nearest_even_1: "round_nearest_even n 1 = n" "round_nearest_even n (Suc 0) = n"
  by (simp_all add: round_nearest_even_def)

lemma floor_log2_scale:
  assumes "0 < n" "0 < d"
  shows "floor_log2 (n * 2 ^ j) (d * 2 ^ j) = floor_log2 n d"
proof -
  have k: "int (bitlen (n * 2 ^ j)) - int (bitlen (d * 2 ^ j)) = int (bitlen n) - int (bitlen d)"
    using assms by (simp add: bitlen_times_pow2)
  have c: "d * 2 ^ j * 2 ^ a \<le> n * 2 ^ j * 2 ^ b \<longleftrightarrow> d * 2 ^ a \<le> n * 2 ^ b" for a b :: nat
  proof -
    have e: "d * 2 ^ j * 2 ^ a = (d * 2 ^ a) * 2 ^ j" "n * 2 ^ j * 2 ^ b = (n * 2 ^ b) * 2 ^ j"
      by (simp_all add: mult.commute mult.left_commute)
    show ?thesis unfolding e by simp
  qed
  show ?thesis
    unfolding floor_log2_def k Let_def c by (rule refl)
qed

lemma f64_round_scale:
  assumes "0 < n" "0 < d"
  shows "f64_round s (n * 2 ^ j) (d * 2 ^ j) = f64_round s n d"
proof -
  have r: "round_nearest_even (n * 2 ^ j * 2 ^ a) (d * 2 ^ j * 2 ^ b) = round_nearest_even (n * 2 ^ a) (d * 2 ^ b)"
    for a b :: nat
  proof -
    have e: "n * 2 ^ j * 2 ^ a = (n * 2 ^ a) * 2 ^ j" "d * 2 ^ j * 2 ^ b = (d * 2 ^ b) * 2 ^ j"
      by (simp_all add: mult.commute mult.left_commute)
    show ?thesis unfolding e by (rule round_nearest_even_scale) simp
  qed
  have z: "n * 2 ^ j = 0 \<longleftrightarrow> n = 0"
    by simp
  show ?thesis
    unfolding f64_round_def floor_log2_scale [OF assms] Let_def r z by (rule refl)
qed

lemma bitlen_1: "bitlen 1 = 1"
  by (simp add: bitlen.simps)

lemma f64_of_nat_0: "f64_of_nat 0 = Finite False 0 (- 1074)"
  by (simp add: f64_of_nat_def f64_round_def)

lemma floor_log2_nat:
  assumes "0 < a"
  shows "floor_log2 a 1 = int (bitlen a) - 1"
proof -
  have b: "2 ^ (bitlen a - 1) \<le> a"
    using bitlen_bounds [OF assms] by simp
  have p: "0 < bitlen a" using assms by (simp add: bitlen_pos)
  have k: "nat (int (bitlen a) - 1) = bitlen a - 1" "nat (1 - int (bitlen a)) = 0"
    using p by simp_all
  show ?thesis
    unfolding floor_log2_def bitlen_1 Let_def using b by (simp add: k)
qed

lemma f64_of_nat_pos:
  assumes "0 < a" "a < 2 ^ 53"
  shows "f64_of_nat a = Finite False (a * 2 ^ (53 - bitlen a)) (int (bitlen a) - 53)"
proof -
  have b: "a < 2 ^ bitlen a"
    using bitlen_bounds [OF assms(1)] by simp
  have le: "bitlen a \<le> 53" using assms by (rule bitlen_le)
  have e: "max (- 1074) (int (bitlen a) - 1 - 52) = int (bitlen a) - 53"
    by simp
  have ne: "nat (- (int (bitlen a) - 53)) = 53 - bitlen a" "nat (int (bitlen a) - 53) = 0"
    using le by simp_all
  have "a * 2 ^ (53 - bitlen a) < 2 ^ bitlen a * 2 ^ (53 - bitlen a)"
    using b by simp
  also have "\<dots> = 2 ^ 53"
    using le by (simp flip: power_add)
  finally have m: "a * 2 ^ (53 - bitlen a) \<noteq> 2 ^ 53" by simp
  have g: "\<not> 971 < int (bitlen a) - 53"
    using le by simp
  have "f64_round False a 1 = Finite False (a * 2 ^ (53 - bitlen a)) (int (bitlen a) - 53)"
    unfolding f64_round_def floor_log2_nat [OF assms(1)] e Let_def ne
    using assms(1) m g le by (simp add: round_nearest_even_1)
  then show ?thesis by (simp add: f64_of_nat_def)
qed

lemma f64_of_nat_form:
  assumes "a < 2 ^ 53"
  shows "\<exists>e\<le>0. f64_of_nat a = Finite False (a * 2 ^ nat (- e)) e"
proof (cases "a = 0")
  case True
  then show ?thesis by (intro exI [of _ "- 1074"]) (simp add: f64_of_nat_0)
next
  case False
  then have a: "0 < a" by simp
  have le: "bitlen a \<le> 53" using a assms by (rule bitlen_le)
  then have "nat (- (int (bitlen a) - 53)) = 53 - bitlen a" by simp
  with f64_of_nat_pos [OF a assms] le show ?thesis
    by (intro exI [of _ "int (bitlen a) - 53"]) simp
qed

lemma f64_scaled_nat:
  assumes "e \<le> 0"
  shows "f64_scaled False (c * 2 ^ nat (- e)) e = f64_of_nat c"
proof (cases "c = 0")
  case True
  then show ?thesis by (simp add: f64_scaled_def f64_round_def f64_of_nat_0)
next
  case False
  have n: "nat e = 0" using assms by simp
  have "f64_scaled False (c * 2 ^ nat (- e)) e = f64_round False (c * 2 ^ nat (- e)) (1 * 2 ^ nat (- e))"
    unfolding f64_scaled_def n by simp
  also have "\<dots> = f64_round False c 1"
    using False by (intro f64_round_scale) simp_all
  finally show ?thesis by (simp add: f64_of_nat_def)
qed

lemma pow2_shift:
  fixes a :: nat
  assumes "x \<le> e" "e \<le> 0"
  shows "a * 2 ^ nat (- e) * 2 ^ nat (e - x) = a * 2 ^ nat (- x)"
proof -
  have "nat (- e) + nat (e - x) = nat (- x)" using assms by simp
  then have "(2::nat) ^ nat (- e) * 2 ^ nat (e - x) = 2 ^ nat (- x)"
    by (simp flip: power_add)
  then show ?thesis by (simp add: mult.assoc)
qed

text \<open>The sum of two finite values of the same sign, and the difference of two.\<close>

lemma f64_add_same_sign:
  "f64_add (Finite False m e) (Finite False n f) =
     (if m * 2 ^ nat (e - min e f) + n * 2 ^ nat (f - min e f) = 0 then Finite False 0 (- 1074)
      else f64_scaled False (m * 2 ^ nat (e - min e f) + n * 2 ^ nat (f - min e f)) (min e f))"
proof -
  define M where "M = m * 2 ^ nat (e - min e f)"
  define N where "N = n * 2 ^ nat (f - min e f)"
  have i: "int M + int N = 0 \<longleftrightarrow> M + N = 0" "\<not> int M + int N < 0" "nat \<bar>int M + int N\<bar> = M + N"
    by linarith+
  show ?thesis
    unfolding f64_add_Finite Let_def M_def [symmetric] N_def [symmetric]
    by (simp only: if_False mult_1 i simp_thms)
qed

lemma f64_sub_same_sign:
  assumes "n * 2 ^ nat (f - min e f) \<le> m * 2 ^ nat (e - min e f)"
  shows "f64_sub (Finite False m e) (Finite False n f) =
     (if m * 2 ^ nat (e - min e f) - n * 2 ^ nat (f - min e f) = 0 then Finite False 0 (- 1074)
      else f64_scaled False (m * 2 ^ nat (e - min e f) - n * 2 ^ nat (f - min e f)) (min e f))"
proof -
  define M where "M = m * 2 ^ nat (e - min e f)"
  define N where "N = n * 2 ^ nat (f - min e f)"
  have le: "N \<le> M" using assms by (simp add: M_def N_def)
  have i: "int M + - 1 * int N = 0 \<longleftrightarrow> M - N = 0" "\<not> int M + - 1 * int N < 0"
    "nat \<bar>int M + - 1 * int N\<bar> = M - N"
    using le by linarith+
  show ?thesis
    unfolding f64_sub_def f64_neg_Finite f64_add_Finite Let_def M_def [symmetric] N_def [symmetric]
    by (simp only: if_False if_True mult_1 i simp_thms not_False_eq_True)
qed

lemma f64_add_nat:
  assumes "a + b < 2 ^ 53"
  shows "f64_add (f64_of_nat a) (f64_of_nat b) = f64_of_nat (a + b)"
proof -
  from assms have "a < 2 ^ 53" "b < 2 ^ 53" by simp_all
  then obtain e f where e: "e \<le> 0" "f64_of_nat a = Finite False (a * 2 ^ nat (- e)) e"
    and f: "f \<le> 0" "f64_of_nat b = Finite False (b * 2 ^ nat (- f)) f"
    using f64_of_nat_form by blast
  have x: "min e f \<le> e" "min e f \<le> f" "min e f \<le> 0" using e f by simp_all
  have sa: "a * 2 ^ nat (- e) * 2 ^ nat (e - min e f) = a * 2 ^ nat (- min e f)"
    using x e by (intro pow2_shift)
  have sb: "b * 2 ^ nat (- f) * 2 ^ nat (f - min e f) = b * 2 ^ nat (- min e f)"
    using x f by (intro pow2_shift)
  have d: "a * 2 ^ nat (- min e f) + b * 2 ^ nat (- min e f) = (a + b) * 2 ^ nat (- min e f)"
    by (simp add: algebra_simps)
  have z: "(a + b) * 2 ^ nat (- min e f) = 0 \<longleftrightarrow> a + b = 0"
    by simp
  show ?thesis
    unfolding e f f64_add_same_sign sa sb d z f64_scaled_nat [OF x(3)]
    by (simp add: f64_of_nat_0)
qed

lemma f64_sub_nat:
  assumes "b \<le> a" "a < 2 ^ 53"
  shows "f64_sub (f64_of_nat a) (f64_of_nat b) = f64_of_nat (a - b)"
proof -
  from assms have "a < 2 ^ 53" "b < 2 ^ 53" by simp_all
  then obtain e f where e: "e \<le> 0" "f64_of_nat a = Finite False (a * 2 ^ nat (- e)) e"
    and f: "f \<le> 0" "f64_of_nat b = Finite False (b * 2 ^ nat (- f)) f"
    using f64_of_nat_form by blast
  have x: "min e f \<le> e" "min e f \<le> f" "min e f \<le> 0" using e f by simp_all
  have sa: "a * 2 ^ nat (- e) * 2 ^ nat (e - min e f) = a * 2 ^ nat (- min e f)"
    using x e by (intro pow2_shift)
  have sb: "b * 2 ^ nat (- f) * 2 ^ nat (f - min e f) = b * 2 ^ nat (- min e f)"
    using x f by (intro pow2_shift)
  have le: "b * 2 ^ nat (- f) * 2 ^ nat (f - min e f) \<le> a * 2 ^ nat (- e) * 2 ^ nat (e - min e f)"
    unfolding sa sb using assms(1) by simp
  have d: "a * 2 ^ nat (- min e f) - b * 2 ^ nat (- min e f) = (a - b) * 2 ^ nat (- min e f)"
    by (simp add: algebra_simps)
  have z: "(a - b) * 2 ^ nat (- min e f) = 0 \<longleftrightarrow> a - b = 0"
    by simp
  show ?thesis
    unfolding e f f64_sub_same_sign [OF le] sa sb d z f64_scaled_nat [OF x(3)]
    by (simp add: f64_of_nat_0)
qed

lemma f64_mul_nat:
  assumes "a * b < 2 ^ 53" "a < 2 ^ 53" "b < 2 ^ 53"
  shows "f64_mul (f64_of_nat a) (f64_of_nat b) = f64_of_nat (a * b)"
proof -
  obtain e f where e: "e \<le> 0" "f64_of_nat a = Finite False (a * 2 ^ nat (- e)) e"
    and f: "f \<le> 0" "f64_of_nat b = Finite False (b * 2 ^ nat (- f)) f"
    using assms f64_of_nat_form by blast
  have "nat (- e) + nat (- f) = nat (- (e + f))" using e f by simp
  then have "(2::nat) ^ nat (- e) * 2 ^ nat (- f) = 2 ^ nat (- (e + f))"
    by (simp flip: power_add)
  then have p: "a * 2 ^ nat (- e) * (b * 2 ^ nat (- f)) = a * b * 2 ^ nat (- (e + f))"
    by (simp add: mult.commute mult.left_commute)
  have le: "e + f \<le> 0" using e f by simp
  have n: "(False \<noteq> False) = False" by simp
  show ?thesis
    unfolding e f f64_mul_Finite p n by (rule f64_scaled_nat [OF le])
qed

text \<open>
  \<^verbatim>\<open>floor_log2 n d\<close> is the whole part of the binary logarithm of \<open>n / d\<close>: the fraction
  lies between \<open>2 ^ floor_log2 n d\<close> and the next power of two.
\<close>

lemma floor_log2_lower:
  assumes "0 < n" "0 < d"
  shows "d * 2 ^ nat (floor_log2 n d) \<le> n * 2 ^ nat (- floor_log2 n d)"
proof -
  define k where "k = int (bitlen n) - int (bitlen d)"
  have n1: "2 ^ (bitlen n - 1) \<le> n" and d2: "d < 2 ^ bitlen d"
    using bitlen_bounds [OF assms(1)] bitlen_bounds [OF assms(2)] by simp_all
  have pn: "0 < bitlen n" and pd: "0 < bitlen d"
    using assms by (simp_all add: bitlen_pos)
  show ?thesis
  proof (cases "d * 2 ^ nat k \<le> n * 2 ^ nat (- k)")
    case True
    then show ?thesis by (simp add: floor_log2_def k_def Let_def)
  next
    case False
    then have f: "floor_log2 n d = k - 1" by (simp add: floor_log2_def k_def Let_def)
    show ?thesis
    proof (cases "1 \<le> k")
      case True
      then have e: "nat (floor_log2 n d) = bitlen n - bitlen d - 1" "nat (- floor_log2 n d) = 0"
        and le: "bitlen d + 1 \<le> bitlen n"
        by (simp_all add: f k_def)
      have "d * 2 ^ (bitlen n - bitlen d - 1) \<le> 2 ^ bitlen d * 2 ^ (bitlen n - bitlen d - 1)"
        using d2 by simp
      also have "\<dots> = 2 ^ (bitlen n - 1)"
        using le by (simp flip: power_add)
      finally show ?thesis unfolding e using n1 by simp
    next
      case False
      then have e: "nat (floor_log2 n d) = 0" "nat (- floor_log2 n d) = bitlen d - bitlen n + 1"
        and le: "bitlen n \<le> bitlen d"
        by (simp_all add: f k_def)
      have "d \<le> 2 ^ bitlen d" using d2 by simp
      also have "\<dots> = 2 ^ (bitlen n - 1) * 2 ^ (bitlen d - bitlen n + 1)"
      proof -
        have "bitlen d = (bitlen n - 1) + (bitlen d - bitlen n + 1)" using le pn by simp
        then show ?thesis by (metis power_add)
      qed
      also have "\<dots> \<le> n * 2 ^ (bitlen d - bitlen n + 1)"
        using n1 by simp
      finally show ?thesis unfolding e by simp
    qed
  qed
qed

lemma floor_log2_upper:
  assumes "0 < n" "0 < d"
  shows "n * 2 ^ nat (- (floor_log2 n d + 1)) < d * 2 ^ nat (floor_log2 n d + 1)"
proof -
  define k where "k = int (bitlen n) - int (bitlen d)"
  have n2: "n < 2 ^ bitlen n" and d1: "2 ^ (bitlen d - 1) \<le> d"
    using bitlen_bounds [OF assms(1)] bitlen_bounds [OF assms(2)] by simp_all
  have pn: "0 < bitlen n" and pd: "0 < bitlen d"
    using assms by (simp_all add: bitlen_pos)
  show ?thesis
  proof (cases "d * 2 ^ nat k \<le> n * 2 ^ nat (- k)")
    case False
    then show ?thesis by (simp add: floor_log2_def k_def Let_def)
  next
    case True
    then have f: "floor_log2 n d = k" by (simp add: floor_log2_def k_def Let_def)
    show ?thesis
    proof (cases "- 1 \<le> k")
      case True
      then have e: "nat (floor_log2 n d + 1) = bitlen n + 1 - bitlen d"
          "nat (- (floor_log2 n d + 1)) = 0"
        and le: "bitlen d \<le> bitlen n + 1"
        by (simp_all add: f k_def)
      have "n < 2 ^ bitlen n" by (rule n2)
      also have "\<dots> = 2 ^ (bitlen d - 1) * 2 ^ (bitlen n + 1 - bitlen d)"
      proof -
        have "bitlen n = (bitlen d - 1) + (bitlen n + 1 - bitlen d)" using le pd by simp
        then show ?thesis by (metis power_add)
      qed
      also have "\<dots> \<le> d * 2 ^ (bitlen n + 1 - bitlen d)"
        using d1 by simp
      finally show ?thesis unfolding e by simp
    next
      case False
      then have e: "nat (floor_log2 n d + 1) = 0"
          "nat (- (floor_log2 n d + 1)) = bitlen d - bitlen n - 1"
        and le: "bitlen n + 2 \<le> bitlen d"
        by (simp_all add: f k_def)
      have "n * 2 ^ (bitlen d - bitlen n - 1) < 2 ^ bitlen n * 2 ^ (bitlen d - bitlen n - 1)"
        using n2 by simp
      also have "\<dots> = 2 ^ (bitlen d - 1)"
        using le by (simp flip: power_add)
      finally show ?thesis unfolding e using d1 by simp
    qed
  qed
qed

text \<open>
  When the fraction \<open>n / d\<close> is at least \<open>2 ^ y\<close>, it is at least \<open>2 ^ x\<close> for every
  \<open>x \<le> y\<close>.
\<close>

lemma at_least_pow2_mono:
  assumes "x \<le> y" "d * 2 ^ nat y \<le> n * 2 ^ nat (- y)"
  shows "d * 2 ^ nat x \<le> (n::nat) * 2 ^ nat (- x)"
proof -
  have "nat x \<le> nat y" using assms(1) by simp
  then have "(2::nat) ^ nat x \<le> 2 ^ nat y" by (rule power_increasing) simp
  then have "d * 2 ^ nat x \<le> d * 2 ^ nat y" by (rule mult_le_mono2)
  also have "\<dots> \<le> n * 2 ^ nat (- y)" by (rule assms(2))
  also have "\<dots> \<le> n * 2 ^ nat (- x)"
  proof -
    have "nat (- y) \<le> nat (- x)" using assms(1) by simp
    then have "(2::nat) ^ nat (- y) \<le> 2 ^ nat (- x)" by (rule power_increasing) simp
    then show ?thesis by (rule mult_le_mono2)
  qed
  finally show ?thesis .
qed

lemma floor_log2_unique:
  assumes "0 < n" "0 < d"
    and "d * 2 ^ nat x \<le> n * 2 ^ nat (- x)"
    and "n * 2 ^ nat (- (x + 1)) < d * 2 ^ nat (x + 1)"
  shows "floor_log2 n d = x"
proof (rule ccontr)
  assume ne: "floor_log2 n d \<noteq> x"
  show False
  proof (cases "floor_log2 n d < x")
    case True
    then have "floor_log2 n d + 1 \<le> x" by simp
    from at_least_pow2_mono [OF this assms(3)] floor_log2_upper [OF assms(1,2)]
    show False by simp
  next
    case False
    with ne have "x + 1 \<le> floor_log2 n d" by simp
    from at_least_pow2_mono [OF this floor_log2_lower [OF assms(1,2)]] assms(4)
    show False by simp
  qed
qed

lemma floor_log2_scale_any:
  assumes "0 < n" "0 < d" "0 < c"
  shows "floor_log2 (n * c) (d * c) = floor_log2 n d"
proof (rule floor_log2_unique)
  show "0 < n * c" "0 < d * c" using assms by simp_all
  have "d * 2 ^ nat (floor_log2 n d) * c \<le> n * 2 ^ nat (- floor_log2 n d) * c"
    using floor_log2_lower [OF assms(1,2)] by simp
  then show "d * c * 2 ^ nat (floor_log2 n d) \<le> n * c * 2 ^ nat (- floor_log2 n d)"
    by (simp add: mult.commute mult.left_commute)
  have "n * 2 ^ nat (- (floor_log2 n d + 1)) * c < d * 2 ^ nat (floor_log2 n d + 1) * c"
    using floor_log2_upper [OF assms(1,2)] assms(3) by simp
  then show "n * c * 2 ^ nat (- (floor_log2 n d + 1)) < d * c * 2 ^ nat (floor_log2 n d + 1)"
    by (simp add: mult.commute mult.left_commute)
qed

lemma f64_round_scale_any:
  assumes "0 < d" "0 < c"
  shows "f64_round s (n * c) (d * c) = f64_round s n d"
proof (cases "n = 0")
  case True
  then show ?thesis by (simp add: f64_round_def)
next
  case False
  then have n: "0 < n" by simp
  have r: "round_nearest_even (n * c * 2 ^ a) (d * c * 2 ^ b) = round_nearest_even (n * 2 ^ a) (d * 2 ^ b)"
    for a b :: nat
  proof -
    have e: "n * c * 2 ^ a = (n * 2 ^ a) * c" "d * c * 2 ^ b = (d * 2 ^ b) * c"
      by (simp_all add: mult.commute mult.left_commute)
    show ?thesis unfolding e using assms(2) by (rule round_nearest_even_scale)
  qed
  have z: "n * c = 0 \<longleftrightarrow> n = 0"
    using assms(2) by simp
  show ?thesis
    unfolding f64_round_def floor_log2_scale_any [OF n assms] Let_def r z by (rule refl)
qed

text \<open>
  Rounding depends on the value of the fraction only, so that the quotient of two whole
  numbers below \<open>2 ^ 53\<close> is exact when it is a whole number.
\<close>

lemma f64_round_fraction:
  assumes "0 < d" "0 < d'" "n * d' = n' * d"
  shows "f64_round s n d = f64_round s n' d'"
proof -
  have "f64_round s n d = f64_round s (n * d') (d * d')"
    by (rule f64_round_scale_any [OF assms(1,2), symmetric])
  also have "\<dots> = f64_round s (n' * d) (d' * d)"
    by (simp only: assms(3) mult.commute [of d d'])
  also have "\<dots> = f64_round s n' d'"
    by (rule f64_round_scale_any [OF assms(2,1)])
  finally show ?thesis .
qed

lemma f64_div_nat:
  assumes "0 < y" "x = q * y" "x < 2 ^ 53" "y < 2 ^ 53"
  shows "f64_div (f64_of_nat x) (f64_of_nat y) = f64_of_nat q"
proof -
  obtain e f where e: "e \<le> 0" "f64_of_nat x = Finite False (x * 2 ^ nat (- e)) e"
    and f: "f \<le> 0" "f64_of_nat y = Finite False (y * 2 ^ nat (- f)) f"
    using assms f64_of_nat_form by blast
  have nz: "y * 2 ^ nat (- f) \<noteq> 0" using assms(1) by simp
  have p: "nat (- e) + nat (e - f) = nat (- f) + nat (f - e)"
    using e f by simp
  have "x * 2 ^ nat (- e) * 2 ^ nat (e - f) * 1 = q * (y * (2 ^ nat (- e) * 2 ^ nat (e - f)))"
    using assms(2) by (simp add: mult.assoc)
  also have "\<dots> = q * (y * (2 ^ nat (- f) * 2 ^ nat (f - e)))"
    using p by (simp flip: power_add)
  finally have eq: "x * 2 ^ nat (- e) * 2 ^ nat (e - f) * 1 = q * (y * 2 ^ nat (- f) * 2 ^ nat (f - e))"
    by (simp add: mult.assoc)
  have "f64_div (f64_of_nat x) (f64_of_nat y)
          = f64_round False (x * 2 ^ nat (- e) * 2 ^ nat (e - f)) (y * 2 ^ nat (- f) * 2 ^ nat (f - e))"
    unfolding e f f64_div_Finite using nz by simp
  also have "\<dots> = f64_round False q 1"
    using assms(1) eq by (intro f64_round_fraction) simp_all
  finally show ?thesis by (simp add: f64_of_nat_def)
qed

lemma f64_is_nat:
  assumes "a < 2 ^ 53"
  shows "f64_is (f64_of_nat a) (int a) 1"
proof -
  obtain e where e: "e \<le> 0" "f64_of_nat a = Finite False (a * 2 ^ nat (- e)) e"
    using assms f64_of_nat_form by blast
  then show ?thesis by (simp add: f64_is_Finite)
qed

subsection \<open>Precedence and grouping\<close>

lemma evaluate_2_plus_3_times_4:
  "evaluate (Suc (Suc (Suc (Suc (Suc m))))) h ''2 + 3 * 4'' s
     = Some (Inr (Num (f64_of_nat 14) (Position 0 9)), s)"
  by (simp add: lex_run parse_run f64_run eval_run cong: weak)

lemma evaluate_2_plus_3_grouped_times_4:
  "evaluate (Suc (Suc (Suc (Suc (Suc m))))) h ''(2 + 3) * 4'' s
     = Some (Inr (Num (f64_of_nat 20) (Position 1 11)), s)"
  by (simp add: lex_run parse_run f64_run eval_run cong: weak)

lemma evaluate_8_minus_3_minus_2:
  "evaluate (Suc (Suc (Suc (Suc (Suc m))))) h ''8 - 3 - 2'' s
     = Some (Inr (Num (f64_of_nat 3) (Position 0 9)), s)"
  by (simp add: lex_run parse_run f64_run eval_run cong: weak)

lemma evaluate_8_by_4_by_2:
  "evaluate (Suc (Suc (Suc (Suc (Suc m))))) h ''8 / 4 / 2'' s
     = Some (Inr (Num (f64_of_nat 1) (Position 0 9)), s)"
  by (simp add: lex_run parse_run f64_run eval_run cong: weak)

lemma parse_2_plus_3_times_4:
  "map_option fst (parse (Suc (Suc (Suc (Suc (Suc m))))) h ''2 + 3 * 4'')
     = Some (Inr (Bin (Num (atof ''2'') (Position 0 1))
                      (Bin (Num (atof ''3'') (Position 4 5)) (Num (atof ''4'') (Position 8 9))
                           (Star ''*'' (Position 6 7)) (Position 4 9))
                      (Plus' ''+'' (Position 2 3)) (Position 0 9)))"
  by (simp add: lex_run parse_run cong: weak)

lemma parse_8_minus_3_minus_2:
  "map_option fst (parse (Suc (Suc (Suc (Suc (Suc m))))) h ''8 - 3 - 2'')
     = Some (Inr (Bin (Bin (Num (atof ''8'') (Position 0 1)) (Num (atof ''3'') (Position 4 5))
                           (Minus ''-'' (Position 2 3)) (Position 0 5))
                      (Num (atof ''2'') (Position 8 9))
                      (Minus ''-'' (Position 6 7)) (Position 0 9)))"
  by (simp add: lex_run parse_run cong: weak)

lemma f64_is_small:
  "f64_is (f64_of_nat 14) 14 1" "f64_is (f64_of_nat 20) 20 1" "f64_is (f64_of_nat 3) 3 1"
  "f64_is (f64_of_nat 1) 1 1"
  by (simp_all add: f64_run cong: weak)

text \<open>
  C1. The parse-then-evaluate pipeline respects precedence and grouping: with enough
  fuel for the parser (5 suffices), \<^verbatim>\<open>2 + 3 * 4\<close> evaluates to the number 14 and
  \<^verbatim>\<open>(2 + 3) * 4\<close> to the number 20, in any Evaluator and leaving it as it was. \<^verbatim>\<open>*\<close> binds
  tighter than \<^verbatim>\<open>+\<close>: the tree of \<^verbatim>\<open>2 + 3 * 4\<close> has the product as the right operand of the
  sum. The binary operators associate to the left: the tree of \<^verbatim>\<open>8 - 3 - 2\<close> has the
  first difference as the left operand of the second, so it evaluates to 3, and
  \<^verbatim>\<open>8 / 4 / 2\<close> to 1.
\<close>

theorem precedence_and_grouping:
  "5 \<le> n \<Longrightarrow>
     evaluate n h ''2 + 3 * 4'' s = Some (Inr (Num (f64_of_nat 14) (Position 0 9)), s)
   \<and> evaluate n h ''(2 + 3) * 4'' s = Some (Inr (Num (f64_of_nat 20) (Position 1 11)), s)
   \<and> evaluate n h ''8 - 3 - 2'' s = Some (Inr (Num (f64_of_nat 3) (Position 0 9)), s)
   \<and> evaluate n h ''8 / 4 / 2'' s = Some (Inr (Num (f64_of_nat 1) (Position 0 9)), s)
   \<and> f64_is (f64_of_nat 14) 14 1 \<and> f64_is (f64_of_nat 20) 20 1
   \<and> f64_is (f64_of_nat 3) 3 1 \<and> f64_is (f64_of_nat 1) 1 1
   \<and> map_option fst (parse n h ''2 + 3 * 4'')
       = Some (Inr (Bin (Num (atof ''2'') (Position 0 1))
                        (Bin (Num (atof ''3'') (Position 4 5)) (Num (atof ''4'') (Position 8 9))
                             (Star ''*'' (Position 6 7)) (Position 4 9))
                        (Plus' ''+'' (Position 2 3)) (Position 0 9)))
   \<and> map_option fst (parse n h ''8 - 3 - 2'')
       = Some (Inr (Bin (Bin (Num (atof ''8'') (Position 0 1)) (Num (atof ''3'') (Position 4 5))
                             (Minus ''-'' (Position 2 3)) (Position 0 5))
                        (Num (atof ''2'') (Position 8 9))
                        (Minus ''-'' (Position 6 7)) (Position 0 9)))"
proof -
  assume "5 \<le> n"
  then obtain m where n: "n = Suc (Suc (Suc (Suc (Suc m))))"
    using fuel5 by blast
  show ?thesis
    unfolding n
    using evaluate_2_plus_3_times_4 evaluate_2_plus_3_grouped_times_4 evaluate_8_minus_3_minus_2
      evaluate_8_by_4_by_2 parse_2_plus_3_times_4 parse_8_minus_3_minus_2 f64_is_small
    by blast
qed

theorem precedence_and_grouping_witness:
  "\<forall>h s. evaluate 5 h ''2 + 3 * 4'' s = Some (Inr (Num (f64_of_nat 14) (Position 0 9)), s)
       \<and> evaluate 5 h ''(2 + 3) * 4'' s = Some (Inr (Num (f64_of_nat 20) (Position 1 11)), s)"
  using precedence_and_grouping [of 5] by simp

subsection \<open>The Environment\<close>

text \<open>What the loop of \<^verbatim>\<open>evaluateAssign\<close> does to the Environment, and what the loop of
  \<^verbatim>\<open>evaluateIdentifier\<close> then finds.\<close>

lemma names_assign_pair:
  "map fst (assign_pair x v m) = (if x \<in> set (map fst m) then map fst m else map fst m @ [x])"
  by (induction m) auto

lemma assign_pair_absent: "x \<notin> set (map fst m) \<Longrightarrow> assign_pair x v m = m @ [(x, v)]"
  by (induction m) auto

lemma assign_pair_present:
  "x \<in> set (map fst m) \<Longrightarrow>
   \<exists>i<length m. fst (m ! i) = x \<and> (\<forall>j<i. fst (m ! j) \<noteq> x) \<and> assign_pair x v m = m[i := (x, v)]"
proof (induction m)
  case Nil
  then show ?case by simp
next
  case (Cons kv m)
  show ?case
  proof (cases "fst kv = x")
    case True
    then have "fst ((kv # m) ! 0) = x \<and> (\<forall>j<0. fst ((kv # m) ! j) \<noteq> x)
               \<and> assign_pair x v (kv # m) = (kv # m)[0 := (x, v)]"
      by simp
    then show ?thesis by (intro exI[of _ 0]) simp
  next
    case False
    with Cons.prems have "x \<in> set (map fst m)" by auto
    from Cons.IH[OF this] obtain i where i: "i < length m" "fst (m ! i) = x"
      "\<forall>j<i. fst (m ! j) \<noteq> x" "assign_pair x v m = m[i := (x, v)]" by blast
    have "\<forall>j<Suc i. fst ((kv # m) ! j) \<noteq> x"
      using False i(3) by (auto simp: less_Suc_eq_0_disj)
    with i False show ?thesis
      by (intro exI[of _ "Suc i"]) simp
  qed
qed

lemma find_pair_assign_pair: "find_pair x (assign_pair x v m) = Some v"
  by (induction m) auto

lemma find_pair_assign_pair_other: "y \<noteq> x \<Longrightarrow> find_pair y (assign_pair x v m) = find_pair y m"
  by (induction m) auto

text \<open>
  Whatever is evaluated, the names bound before stay where they are, new names come
  after them, and names that were pairwise distinct stay so; for each of the mutually
  recursive functions of the evaluator.
\<close>

lemma names_grow:
  shows "\<exists>ks. names (snd (evaluateNode h node s)) = names s @ ks \<and> (distinct (names s) \<longrightarrow> distinct (names s @ ks))"
    and "\<exists>ks. names (snd (evaluateBin h left right op s)) = names s @ ks \<and> (distinct (names s) \<longrightarrow> distinct (names s @ ks))"
    and "\<exists>ks. names (snd (evaluateUna h t op s)) = names s @ ks \<and> (distinct (names s) \<longrightarrow> distinct (names s @ ks))"
    and "\<exists>ks. names (snd (evaluateAssign h name e p s)) = names s @ ks \<and> (distinct (names s) \<longrightarrow> distinct (names s @ ks))"
    and "\<exists>ks. names (snd (evaluateCall h name args p s)) = names s @ ks \<and> (distinct (names s) \<longrightarrow> distinct (names s @ ks))"
    and "\<exists>ks. names (snd (builtinFloor h name args s)) = names s @ ks \<and> (distinct (names s) \<longrightarrow> distinct (names s @ ks))"
proof (induction h node s and h left right op s and h t op s and h name e p s and h name args p s and h name args s
       rule: evaluateNode_evaluateBin_evaluateUna_evaluateAssign_evaluateCall_builtinFloor.induct)
  case (10 h left right op s)
  show ?case
  proof (cases "evaluateNode h left s")
    case (Pair r1 s1)
    from "10.IH"(1) Pair obtain ks where ks: "names s1 = names s @ ks"
      "distinct (names s) \<longrightarrow> distinct (names s @ ks)" by auto
    show ?thesis
    proof (cases r1)
      case (Inl e)
      with Pair ks show ?thesis by auto
    next
      case (Inr l)
      obtain r2 s2 where r2: "evaluateNode h right s1 = (r2, s2)" by (cases "evaluateNode h right s1")
      from "10.IH"(2)[OF Pair[symmetric] Inr] r2 obtain ks' where ks': "names s2 = names s1 @ ks'"
        "distinct (names s1) \<longrightarrow> distinct (names s1 @ ks')" by auto
      have "names s2 = names s @ (ks @ ks')" using ks ks' by simp
      moreover have "distinct (names s) \<longrightarrow> distinct (names s @ (ks @ ks'))" using ks ks' by simp
      moreover have "snd (evaluateBin h left right op s) = s2"
        using Pair Inr r2 by (simp split: sum.splits)
      ultimately show ?thesis by blast
    qed
  qed
next
  case (12 h name e p s)
  show ?case
  proof (cases "str name")
    case None
    then show ?thesis by simp
  next
    case (Some x)
    obtain r1 s1 where r1: "evaluateNode h e s = (r1, s1)" by (cases "evaluateNode h e s")
    from "12.IH"[OF Some] r1 obtain ks where ks: "names s1 = names s @ ks"
      "distinct (names s) \<longrightarrow> distinct (names s @ ks)" by auto
    show ?thesis
    proof (cases r1)
      case (Inl f)
      with Some r1 ks show ?thesis by auto
    next
      case (Inr v)
      have snd_eq: "snd (evaluateAssign h name e p s) = s1\<lparr>map' := assign_pair x v (map' s1)\<rparr>"
        using Some r1 Inr by simp
      show ?thesis
      proof (cases "x \<in> set (names s1)")
        case True
        then have "names (s1\<lparr>map' := assign_pair x v (map' s1)\<rparr>) = names s1"
          by (simp add: names_def names_assign_pair)
        with snd_eq ks show ?thesis by auto
      next
        case False
        then have "names (s1\<lparr>map' := assign_pair x v (map' s1)\<rparr>) = names s1 @ [x]"
          by (simp add: names_def names_assign_pair)
        then have "names (s1\<lparr>map' := assign_pair x v (map' s1)\<rparr>) = names s @ (ks @ [x])"
          using ks by simp
        moreover have "distinct (names s) \<longrightarrow> distinct (names s @ (ks @ [x]))"
          using ks False by auto
        ultimately show ?thesis using snd_eq by metis
      qed
    qed
  qed
next
  case (14 h name args s)
  then show ?case
    by (auto simp: expectArgsCount_def split: prod.splits sum.splits option.splits Node.splits if_splits)
qed (auto simp: builtinPrint_def evaluateCallProcess_def names_def split: prod.splits sum.splits option.splits)

lemma names_grow_all:
  "\<exists>ks. names (evaluateNodes h es s) = names s @ ks \<and> (distinct (names s) \<longrightarrow> distinct (names s @ ks))"
proof (induction es arbitrary: s)
  case Nil
  show ?case by simp
next
  case (Cons e es)
  from names_grow(1)[of h e s] obtain ks where ks: "names (snd (evaluateNode h e s)) = names s @ ks"
    "distinct (names s) \<longrightarrow> distinct (names s @ ks)" by blast
  from Cons[of "snd (evaluateNode h e s)"] obtain ks' where ks':
    "names (evaluateNodes h es (snd (evaluateNode h e s))) = names (snd (evaluateNode h e s)) @ ks'"
    "distinct (names (snd (evaluateNode h e s))) \<longrightarrow> distinct (names (snd (evaluateNode h e s)) @ ks')" by blast
  have "names (evaluateNodes h (e # es) s) = names s @ (ks @ ks')" using ks ks' by simp
  moreover have "distinct (names s) \<longrightarrow> distinct (names s @ (ks @ ks'))" using ks ks' by simp
  ultimately show ?case by blast
qed

text \<open>An evaluation that contains no assignment leaves the Environment as it was.\<close>

lemma map_unchanged:
  shows "no_assign node \<Longrightarrow> map' (snd (evaluateNode h node s)) = map' s"
    and "no_assign left \<Longrightarrow> no_assign right \<Longrightarrow> map' (snd (evaluateBin h left right op s)) = map' s"
    and "no_assign t \<Longrightarrow> map' (snd (evaluateUna h t op s)) = map' s"
    and "False \<Longrightarrow> map' (snd (evaluateAssign h name e p s)) = map' s"
    and "list_all no_assign args \<Longrightarrow> map' (snd (evaluateCall h name args p s)) = map' s"
    and "list_all no_assign args \<Longrightarrow> map' (snd (builtinFloor h name args s)) = map' s"
proof (induction h node s and h left right op s and h t op s and h name e p s and h name args p s and h name args s
       rule: evaluateNode_evaluateBin_evaluateUna_evaluateAssign_evaluateCall_builtinFloor.induct)
  case (14 h name args s)
  then show ?case
    by (auto simp: expectArgsCount_def length_Suc_conv split: prod.splits sum.splits option.splits Node.splits if_splits)
qed (auto simp: builtinPrint_def evaluateCallProcess_def split: prod.splits sum.splits option.splits)

text \<open>
  C8. The Environment is written only by the evaluation of an assignment: evaluating a
  node that contains no \<open>Assign\<close> node leaves the Environment exactly as it was, whether
  the evaluation returns a value or raises.
\<close>

theorem environment_written_only_by_assign:
  "no_assign node \<Longrightarrow> map' (snd (evaluateNode h node s)) = map' s"
  by (rule map_unchanged(1))

theorem environment_written_only_by_assign_witness:
  "\<forall>h s. no_assign (Bin (Num (f64_of_nat 1) (Position 0 1)) (Identifier ''y'' (Position 4 5))
                       (Slash ''/'' (Position 2 3)) (Position 0 5))
       \<and> map' (snd (evaluateNode h (Bin (Num (f64_of_nat 1) (Position 0 1)) (Identifier ''y'' (Position 4 5))
                       (Slash ''/'' (Position 2 3)) (Position 0 5)) s)) = map' s"
  using environment_written_only_by_assign
    [of "Bin (Num (f64_of_nat 1) (Position 0 1)) (Identifier ''y'' (Position 4 5))
             (Slash ''/'' (Position 2 3)) (Position 0 5)"]
  by simp

subsection \<open>Sessions on concrete texts\<close>

lemma evaluate_x_is_5:
  "evaluate (Suc (Suc (Suc (Suc (Suc m))))) h ''x = 5'' fresh
     = Some (Inr (None' (Position 0 5)), \<lparr>map' = [(''x'', Num (f64_of_nat 5) (Position 4 5))], console = []\<rparr>)"
  by (simp add: lex_run parse_run f64_run eval_run cong: weak)

lemma evaluate_x_is_6:
  "evaluate (Suc (Suc (Suc (Suc (Suc m))))) h ''x = 6'' \<lparr>map' = [(''x'', Num (f64_of_nat 5) (Position 4 5))], console = []\<rparr>
     = Some (Inr (None' (Position 0 5)), \<lparr>map' = [(''x'', Num (f64_of_nat 6) (Position 4 5))], console = []\<rparr>)"
  by (simp add: lex_run parse_run f64_run eval_run cong: weak)

lemma evaluate_a_is_b_is_5:
  "evaluate (Suc (Suc (Suc (Suc (Suc m))))) h ''a = b = 5'' fresh
     = Some (Inr (None' (Position 0 9)),
             \<lparr>map' = [(''b'', Num (f64_of_nat 5) (Position 8 9)), (''a'', None' (Position 4 9))], console = []\<rparr>)"
  by (simp add: lex_run parse_run f64_run eval_run cong: weak)

lemma evaluate_abc_is_12_5:
  "evaluate (Suc (Suc (Suc (Suc (Suc m))))) h ''abc = 12.5'' fresh
     = Some (Inr (None' (Position 0 10)), \<lparr>map' = [(''abc'', Num (atof ''12.5'') (Position 6 10))], console = []\<rparr>)"
  by (simp add: lex_run parse_run f64_run eval_run cong: weak)

lemma evaluate_abc:
  "evaluate (Suc (Suc (Suc (Suc (Suc m))))) h ''abc'' \<lparr>map' = [(''abc'', Num (atof ''12.5'') (Position 6 10))], console = []\<rparr>
     = Some (Inr (Num (atof ''12.5'') (Position 6 10)),
             \<lparr>map' = [(''abc'', Num (atof ''12.5'') (Position 6 10))], console = []\<rparr>)"
  by (simp add: lex_run parse_run f64_run eval_run cong: weak)

lemma evaluate_2_times_abc:
  "evaluate (Suc (Suc (Suc (Suc (Suc m))))) h ''2 * abc'' \<lparr>map' = [(''abc'', Num (atof ''12.5'') (Position 6 10))], console = []\<rparr>
     = Some (Inr (Num (f64_of_nat 25) (Position 0 10)),
             \<lparr>map' = [(''abc'', Num (atof ''12.5'') (Position 6 10))], console = []\<rparr>)"
  by (simp add: lex_run parse_run f64_run eval_run cong: weak)

lemma f64_is_12_5: "f64_is (atof ''12.5'') 25 2"
  by (simp add: f64_run cong: weak)

lemma evaluate_x_is_5_in:
  "evaluate (Suc (Suc (Suc (Suc (Suc m))))) h ''x = 5'' s
     = Some (Inr (None' (Position 0 5)),
             s\<lparr>map' := assign_pair ''x'' (Num (f64_of_nat 5) (Position 4 5)) (map' s)\<rparr>)"
  by (simp add: lex_run parse_run f64_run eval_run Suc_Suc_0 cong: weak)

lemma evaluate_x_is_6_in:
  "evaluate (Suc (Suc (Suc (Suc (Suc m))))) h ''x = 6'' s
     = Some (Inr (None' (Position 0 5)),
             s\<lparr>map' := assign_pair ''x'' (Num (f64_of_nat 6) (Position 4 5)) (map' s)\<rparr>)"
  by (simp add: lex_run parse_run f64_run eval_run Suc_Suc_0 cong: weak)

lemma count_list_distinct: "distinct xs \<Longrightarrow> x \<in> set xs \<Longrightarrow> count_list xs x = 1"
  by (induction xs) auto

lemma names_assign:
  "names (s\<lparr>map' := assign_pair x v (map' s)\<rparr>) = (if x \<in> set (names s) then names s else names s @ [x])"
  by (simp add: names_def names_assign_pair)

lemma one_binding_after_two_assignments:
  assumes "distinct (names s)"
  shows "count_list (names (s\<lparr>map' := assign_pair x v (map' s)\<rparr>
                             \<lparr>map' := assign_pair x w (map' (s\<lparr>map' := assign_pair x v (map' s)\<rparr>))\<rparr>)) x = 1
       \<and> find_pair x (map' (s\<lparr>map' := assign_pair x v (map' s)\<rparr>
                             \<lparr>map' := assign_pair x w (map' (s\<lparr>map' := assign_pair x v (map' s)\<rparr>))\<rparr>)) = Some w"
proof -
  have 1: "x \<in> set (names (s\<lparr>map' := assign_pair x v (map' s)\<rparr>))"
    "distinct (names (s\<lparr>map' := assign_pair x v (map' s)\<rparr>))"
    using assms by (simp_all add: names_assign)
  have 2: "names (s\<lparr>map' := assign_pair x v (map' s)\<rparr>
                    \<lparr>map' := assign_pair x w (map' (s\<lparr>map' := assign_pair x v (map' s)\<rparr>))\<rparr>)
             = names (s\<lparr>map' := assign_pair x v (map' s)\<rparr>)"
    using 1(1) by (subst names_assign) simp
  show ?thesis
    unfolding 2 using 1 by (simp add: count_list_distinct find_pair_assign_pair)
qed

text \<open>
  C2. The names of the Environment stay pairwise distinct. Over any session (any
  sequence of evaluate calls, returning or raising) from an Environment with distinct
  names, the names are distinct at the end, and the names bound at the start are still
  there, in their places, with any new names after them: no operation removes a pair.
  An assignment whose right-hand side evaluates to a value overwrites the pair of its
  name in place when the name is bound, and pushes one new pair at the back when it
  is not. In particular \<^verbatim>\<open>x = 5\<close> and then \<^verbatim>\<open>x = 6\<close> against the same Environment leave
  exactly one binding named \<open>x\<close>, to the number 6; from the empty Environment it is the
  only binding.
\<close>

theorem names_stay_distinct:
  "distinct (names s) \<Longrightarrow> 5 \<le> n \<Longrightarrow>
     distinct (names (evaluateNodes h es s))
   \<and> (\<exists>ks. names (evaluateNodes h es s) = names s @ ks)
   \<and> (evaluateNode h e s = (Inr v, s1) \<and> x \<in> set (names s1) \<longrightarrow>
        (\<exists>i<length (map' s1). fst (map' s1 ! i) = x
           \<and> map' (snd (evaluateNode h (Assign (Identifier x px) e p) s)) = (map' s1)[i := (x, v)]))
   \<and> (evaluateNode h e s = (Inr v, s1) \<and> x \<notin> set (names s1) \<longrightarrow>
        map' (snd (evaluateNode h (Assign (Identifier x px) e p) s)) = map' s1 @ [(x, v)])
   \<and> (\<exists>s' s''. evaluate n h ''x = 5'' s = Some (Inr (None' (Position 0 5)), s')
          \<and> evaluate n h ''x = 6'' s' = Some (Inr (None' (Position 0 5)), s'')
          \<and> count_list (names s'') ''x'' = 1
          \<and> find_pair ''x'' (map' s'') = Some (Num (f64_of_nat 6) (Position 4 5)))
   \<and> evaluate n h ''x = 5'' fresh
       = Some (Inr (None' (Position 0 5)), \<lparr>map' = [(''x'', Num (f64_of_nat 5) (Position 4 5))], console = []\<rparr>)
   \<and> evaluate n h ''x = 6'' \<lparr>map' = [(''x'', Num (f64_of_nat 5) (Position 4 5))], console = []\<rparr>
       = Some (Inr (None' (Position 0 5)), \<lparr>map' = [(''x'', Num (f64_of_nat 6) (Position 4 5))], console = []\<rparr>)"
proof -
  assume d: "distinct (names s)" and "5 \<le> n"
  then obtain m where n: "n = Suc (Suc (Suc (Suc (Suc m))))"
    using fuel5 by blast
  from names_grow_all [of h es s] obtain ks where
    ks: "names (evaluateNodes h es s) = names s @ ks" "distinct (names s) \<longrightarrow> distinct (names s @ ks)"
    by blast
  have 1: "distinct (names (evaluateNodes h es s))"
    using ks d by simp
  have 2: "\<exists>ks. names (evaluateNodes h es s) = names s @ ks"
    using ks by blast
  have 3: "\<exists>i<length (map' s1). fst (map' s1 ! i) = x
           \<and> map' (snd (evaluateNode h (Assign (Identifier x px) e p) s)) = (map' s1)[i := (x, v)]"
    if "evaluateNode h e s = (Inr v, s1)" "x \<in> set (names s1)"
    using that assign_pair_present [of x "map' s1" v] by (auto simp: names_def)
  have 4: "map' (snd (evaluateNode h (Assign (Identifier x px) e p) s)) = map' s1 @ [(x, v)]"
    if "evaluateNode h e s = (Inr v, s1)" "x \<notin> set (names s1)"
    using that assign_pair_absent [of x "map' s1" v] by (simp add: names_def)
  have 5: "\<exists>s' s''. evaluate n h ''x = 5'' s = Some (Inr (None' (Position 0 5)), s')
          \<and> evaluate n h ''x = 6'' s' = Some (Inr (None' (Position 0 5)), s'')
          \<and> count_list (names s'') ''x'' = 1
          \<and> find_pair ''x'' (map' s'') = Some (Num (f64_of_nat 6) (Position 4 5))"
    unfolding n evaluate_x_is_5_in
    using evaluate_x_is_6_in one_binding_after_two_assignments [OF d] by blast
  show ?thesis
    using 1 2 3 4 5 evaluate_x_is_5 evaluate_x_is_6 unfolding n by blast
qed

theorem names_stay_distinct_witness:
  "\<forall>h. distinct (names fresh)
      \<and> distinct (names (evaluateNodes h
           [Assign (Identifier ''x'' (Position 0 1)) (Num (f64_of_nat 5) (Position 4 5)) (Position 0 5),
            Assign (Identifier ''x'' (Position 0 1)) (Num (f64_of_nat 6) (Position 4 5)) (Position 0 5)] fresh))
      \<and> evaluate 5 h ''x = 6'' \<lparr>map' = [(''x'', Num (f64_of_nat 5) (Position 4 5))], console = []\<rparr>
          = Some (Inr (None' (Position 0 5)), \<lparr>map' = [(''x'', Num (f64_of_nat 6) (Position 4 5))], console = []\<rparr>)"
proof -
  have d: "distinct (names fresh)"
    by (simp add: names_def fresh_def)
  have n: "(5::nat) \<le> 5"
    by simp
  show ?thesis
    using d names_stay_distinct [OF d n] by blast
qed

subsection \<open>Assignment and lookup\<close>

text \<open>
  C7. An assignment first evaluates its right-hand side. When that raises, nothing is
  written and the assignment raises the same; when it returns a value, the value is
  bound to the name in the Environment as the right-hand side left it (the first pair
  of that name is overwritten in place, or a new pair is pushed at the back when there
  is none), and the assignment returns a \<open>None\<close> node at its own position, whatever the
  value was. So \<^verbatim>\<open>a = b = 5\<close> binds \<open>b\<close> first, to 5, and then \<open>a\<close>, to the \<open>None\<close> that the inner
  assignment returned.
\<close>

theorem assign_evaluates_then_writes:
  "5 \<le> n \<Longrightarrow>
     evaluateNode h (Assign (Identifier x px) e p) s =
       (case evaluateNode h e s of
          (Inl f, s1) \<Rightarrow> (Inl f, s1)
        | (Inr v, s1) \<Rightarrow> (Inr (None' p), s1\<lparr>map' := assign_pair x v (map' s1)\<rparr>))
   \<and> kind (None' p) = KNone
   \<and> (x \<in> set (map fst kvs) \<longrightarrow>
        (\<exists>i<length kvs. fst (kvs ! i) = x \<and> (\<forall>j<i. fst (kvs ! j) \<noteq> x) \<and> assign_pair x v kvs = kvs[i := (x, v)]))
   \<and> (x \<notin> set (map fst kvs) \<longrightarrow> assign_pair x v kvs = kvs @ [(x, v)])
   \<and> evaluate n h ''a = b = 5'' fresh
       = Some (Inr (None' (Position 0 9)),
               \<lparr>map' = [(''b'', Num (f64_of_nat 5) (Position 8 9)), (''a'', None' (Position 4 9))], console = []\<rparr>)"
proof -
  assume "5 \<le> n"
  then obtain m where n: "n = Suc (Suc (Suc (Suc (Suc m))))"
    using fuel5 by blast
  have 1: "evaluateNode h (Assign (Identifier x px) e p) s =
       (case evaluateNode h e s of
          (Inl f, s1) \<Rightarrow> (Inl f, s1)
        | (Inr v, s1) \<Rightarrow> (Inr (None' p), s1\<lparr>map' := assign_pair x v (map' s1)\<rparr>))"
    by (simp add: none_def split: prod.splits sum.splits)
  have 2: "kind (None' p) = KNone"
    by simp
  show ?thesis
    unfolding n using 1 2 assign_pair_present [of x kvs v] assign_pair_absent [of x kvs v] evaluate_a_is_b_is_5
    by blast
qed

theorem assign_evaluates_then_writes_witness:
  "\<forall>h s. evaluateNode h (Assign (Identifier ''x'' (Position 0 1)) (Num (f64_of_nat 6) (Position 4 5)) (Position 0 5))
             \<lparr>map' = [(''x'', Num (f64_of_nat 5) (Position 4 5))], console = []\<rparr>
           = (Inr (None' (Position 0 5)), \<lparr>map' = [(''x'', Num (f64_of_nat 6) (Position 4 5))], console = []\<rparr>)"
  using assign_evaluates_then_writes [of 5] by (simp add: none_def)

lemma evaluate_x_is_minus_5:
  "evaluate (Suc (Suc (Suc (Suc (Suc m))))) h ''x = -5'' fresh
     = Some (Inr (None' (Position 0 6)),
             \<lparr>map' = [(''x'', Num (f64_neg (f64_of_nat 5)) (Position 5 6))], console = []\<rparr>)"
  by (simp add: lex_run parse_run f64_run eval_run cong: weak)

lemma parse_x_is_minus_5:
  "map_option fst (parse (Suc (Suc (Suc (Suc (Suc m))))) h ''x = -5'')
     = Some (Inr (Assign (Identifier ''x'' (Position 0 1))
                   (Una (Num (atof ''5'') (Position 5 6)) (Minus ''-'' (Position 4 5)) (Position 4 6))
                   (Position 0 6)))"
  by (simp add: lex_run parse_run cong: weak)

lemma evaluate_x_after_minus_5:
  "evaluate (Suc (Suc (Suc (Suc (Suc m))))) h ''x''
       \<lparr>map' = [(''x'', Num (f64_neg (f64_of_nat 5)) (Position 5 6))], console = []\<rparr>
     = Some (Inr (Num (f64_neg (f64_of_nat 5)) (Position 5 6)),
             \<lparr>map' = [(''x'', Num (f64_neg (f64_of_nat 5)) (Position 5 6))], console = []\<rparr>)"
  by (simp add: lex_run parse_run f64_run eval_run cong: weak)

lemma evaluate_x_is_floor_3_7:
  "evaluate (Suc (Suc (Suc (Suc (Suc m))))) h ''x = floor(3.7)'' fresh
     = Some (Inr (None' (Position 0 14)),
             \<lparr>map' = [(''x'', Num (f64_of_nat 3) (Position 10 13))], console = []\<rparr>)"
  by (simp add: lex_run parse_run f64_run eval_run cong: weak)

lemma parse_x_is_floor_3_7:
  "map_option fst (parse (Suc (Suc (Suc (Suc (Suc m))))) h ''x = floor(3.7)'')
     = Some (Inr (Assign (Identifier ''x'' (Position 0 1))
                   (Call (Identifier ''floor'' (Position 4 9)) [Num (atof ''3.7'') (Position 10 13)]
                         (Position 4 14))
                   (Position 0 14)))"
  by (simp add: lex_run parse_run cong: weak)

lemma f64_is_minus_5: "f64_is (f64_neg (f64_of_nat 5)) (- 5) 1"
  by (simp add: f64_run cong: weak)

text \<open>
  In \<^verbatim>\<open>x = -5\<close> the expression that produces the stored value is \<^verbatim>\<open>-5\<close>, at the span 4 to 6.
  The node stored under \<open>x\<close>, and returned when \<^verbatim>\<open>x\<close> is evaluated, is the number \<open>- 5\<close> at
  the span 5 to 6, the span of the operand \<^verbatim>\<open>5\<close>: \<^verbatim>\<open>evaluateUna\<close> returns the node of its
  operand with a new number. In \<^verbatim>\<open>x = floor(3.7)\<close> the call is at the span 4 to 14, and the
  stored number 3 at the span 10 to 13 of the argument.
\<close>

theorem stored_position_of_an_operand:
  "evaluate 5 plain_host ''x = -5'' fresh
     = Some (Inr (None' (Position 0 6)),
             \<lparr>map' = [(''x'', Num (f64_neg (f64_of_nat 5)) (Position 5 6))], console = []\<rparr>)
   \<and> map_option fst (parse 5 plain_host ''x = -5'')
     = Some (Inr (Assign (Identifier ''x'' (Position 0 1))
                   (Una (Num (atof ''5'') (Position 5 6)) (Minus ''-'' (Position 4 5)) (Position 4 6))
                   (Position 0 6)))
   \<and> evaluate 5 plain_host ''x'' \<lparr>map' = [(''x'', Num (f64_neg (f64_of_nat 5)) (Position 5 6))], console = []\<rparr>
     = Some (Inr (Num (f64_neg (f64_of_nat 5)) (Position 5 6)),
             \<lparr>map' = [(''x'', Num (f64_neg (f64_of_nat 5)) (Position 5 6))], console = []\<rparr>)
   \<and> f64_is (f64_neg (f64_of_nat 5)) (- 5) 1
   \<and> Position 5 6 \<noteq> Position 4 6
   \<and> evaluate 5 plain_host ''x = floor(3.7)'' fresh
     = Some (Inr (None' (Position 0 14)),
             \<lparr>map' = [(''x'', Num (f64_of_nat 3) (Position 10 13))], console = []\<rparr>)
   \<and> map_option fst (parse 5 plain_host ''x = floor(3.7)'')
     = Some (Inr (Assign (Identifier ''x'' (Position 0 1))
                   (Call (Identifier ''floor'' (Position 4 9)) [Num (atof ''3.7'') (Position 10 13)]
                         (Position 4 14))
                   (Position 0 14)))
   \<and> Position 10 13 \<noteq> Position 4 14"
  using evaluate_x_is_minus_5 [of 0 plain_host] parse_x_is_minus_5 [of 0 plain_host]
    evaluate_x_after_minus_5 [of 0 plain_host] f64_is_minus_5
    evaluate_x_is_floor_3_7 [of 0 plain_host] parse_x_is_floor_3_7 [of 0 plain_host]
  by (simp add: eval_nat_numeral)

text \<open>
  C10, amended. Evaluating an identifier that is bound returns the stored node itself,
  unchanged, with the position it was stored with, and leaves the Evaluator as it was.
  After an assignment whose right-hand side evaluated to a node \<open>v\<close>, the name evaluates
  to exactly \<open>v\<close>: its position is the one that \<open>v\<close> carried, for a right-hand side that
  is a literal the span of that literal in the text of the assignment, and not the span
  of the occurrence of the name that is evaluated. So values built from looked-up
  bindings carry spans of earlier text: after \<^verbatim>\<open>abc = 12.5\<close> the three-character text
  \<^verbatim>\<open>abc\<close> evaluates to the number at the span 6 to 10, and \<^verbatim>\<open>2 * abc\<close>, seven characters,
  to a number whose span ends at 10.
\<close>

theorem identifier_returns_stored_node:
  "5 \<le> n \<Longrightarrow>
     (find_pair x (map' s) = Some v \<longrightarrow> evaluateNode h (Identifier x p) s = (Inr v, s))
   \<and> (evaluateNode h e s = (Inr v, s1) \<longrightarrow>
        evaluateNode h (Identifier x p) (snd (evaluateNode h (Assign (Identifier x px) e pa) s))
          = (Inr v, snd (evaluateNode h (Assign (Identifier x px) e pa) s)))
   \<and> (kind lit = KNum \<or> kind lit = KString \<or> kind lit = KNone \<longrightarrow>
        evaluateNode h (Identifier x p) (snd (evaluateNode h (Assign (Identifier x px) lit pa) s))
          = (Inr lit, snd (evaluateNode h (Assign (Identifier x px) lit pa) s)))
   \<and> evaluate n h ''abc = 12.5'' fresh
       = Some (Inr (None' (Position 0 10)), \<lparr>map' = [(''abc'', Num (atof ''12.5'') (Position 6 10))], console = []\<rparr>)
   \<and> evaluate n h ''abc'' \<lparr>map' = [(''abc'', Num (atof ''12.5'') (Position 6 10))], console = []\<rparr>
       = Some (Inr (Num (atof ''12.5'') (Position 6 10)),
               \<lparr>map' = [(''abc'', Num (atof ''12.5'') (Position 6 10))], console = []\<rparr>)
   \<and> evaluate n h ''2 * abc'' \<lparr>map' = [(''abc'', Num (atof ''12.5'') (Position 6 10))], console = []\<rparr>
       = Some (Inr (Num (f64_of_nat 25) (Position 0 10)),
               \<lparr>map' = [(''abc'', Num (atof ''12.5'') (Position 6 10))], console = []\<rparr>)
   \<and> f64_is (atof ''12.5'') 25 2"
proof -
  assume "5 \<le> n"
  then obtain m where n: "n = Suc (Suc (Suc (Suc (Suc m))))"
    using fuel5 by blast
  have 1: "evaluateNode h (Identifier x p) s = (Inr v, s)" if "find_pair x (map' s) = Some v"
    using that by (simp add: evaluateIdentifier_def)
  have 2: "evaluateNode h (Identifier x p) (snd (evaluateNode h (Assign (Identifier x px) e pa) s))
          = (Inr v, snd (evaluateNode h (Assign (Identifier x px) e pa) s))"
    if "evaluateNode h e s = (Inr v, s1)" for e v s1
    using that by (simp add: evaluateIdentifier_def find_pair_assign_pair)
  have "evaluateNode h lit s = (Inr lit, s)"
    if "kind lit = KNum \<or> kind lit = KString \<or> kind lit = KNone"
    using that by (cases lit) simp_all
  then have 3: "evaluateNode h (Identifier x p) (snd (evaluateNode h (Assign (Identifier x px) lit pa) s))
          = (Inr lit, snd (evaluateNode h (Assign (Identifier x px) lit pa) s))"
    if "kind lit = KNum \<or> kind lit = KString \<or> kind lit = KNone"
    using that 2 [of lit lit s] by blast
  show ?thesis
    unfolding n using 1 2 [of e v s1] 3 evaluate_abc_is_12_5 evaluate_abc evaluate_2_times_abc f64_is_12_5
    by blast
qed

theorem identifier_returns_stored_node_witness:
  "\<forall>h. evaluateNode h (Identifier ''abc'' (Position 0 3))
           \<lparr>map' = [(''abc'', Num (atof ''12.5'') (Position 6 10))], console = []\<rparr>
         = (Inr (Num (atof ''12.5'') (Position 6 10)),
            \<lparr>map' = [(''abc'', Num (atof ''12.5'') (Position 6 10))], console = []\<rparr>)"
  using identifier_returns_stored_node
    [of 5 "''abc''" "\<lparr>map' = [(''abc'', Num (atof ''12.5'') (Position 6 10))], console = []\<rparr>"
        "Num (atof ''12.5'') (Position 6 10)"]
  by simp

subsection \<open>The builtin functions\<close>

lemma evaluate_print:
  "evaluate (Suc (Suc (Suc (Suc (Suc m))))) h ''print(1 / 0, y)'' s
     = Some (Inr (None' (Position 0 15)),
             s\<lparr>console := console s @ (cutTrailingZeros h (to_string h (atof ''1'')) @ '' / ''
                                        @ cutTrailingZeros h (to_string h (atof ''0''))) @ ''y''\<rparr>)"
  by (simp add: lex_run parse_run eval_run cong: weak)

lemma evaluate_1_by_0:
  "evaluate (Suc (Suc (Suc (Suc (Suc m))))) h ''1 / 0'' s = Some (Inl (Error [''dividing by 0''] (Position 4 5)), s)"
  by (simp add: lex_run parse_run f64_run eval_run cong: weak)

lemma evaluate_y_unbound:
  "evaluate (Suc (Suc (Suc (Suc (Suc m))))) h ''y'' fresh = Some (Inl (Error [''unknown variable''] (Position 0 1)), fresh)"
  by (simp add: lex_run parse_run f64_run eval_run cong: weak)

lemma evaluate_print_calls:
  "evaluate (Suc (Suc (Suc (Suc (Suc m))))) h ''print(f(x, y), g())'' s
     = Some (Inr (None' (Position 0 19)), s\<lparr>console := console s @ ''f(x, y)g()''\<rparr>)"
  by (simp add: lex_run parse_run eval_run cong: weak)

lemma evaluate_print_una_assign_none:
  "evaluate (Suc (Suc (Suc (Suc (Suc m))))) h ''print(-z, q = w, none)'' s
     = Some (Inr (None' (Position 0 22)), s\<lparr>console := console s @ ''-zq = wnone''\<rparr>)"
  by (simp add: lex_run parse_run eval_run cong: weak)

lemma evaluate_print_string_number:
  "evaluate (Suc (Suc (Suc (Suc (Suc m))))) h (''print('' @ [CHR 0x27, CHR ''a'', CHR 0x27] @ '', 2.50)'') s
     = Some (Inr (None' (Position 0 16)),
             s\<lparr>console := console s @ [CHR 0x27] @ escapedToEscapes h ''a'' @ [CHR 0x27]
                                        @ cutTrailingZeros h (to_string h (atof ''2.50''))\<rparr>)"
  by (simp add: lex_run parse_run eval_run cong: weak)

lemma toString_punctuation: "toString h (punctuation c q) = [c]"
  by (simp add: punctuation_def)

text \<open>
  C3. A call of the builtin \<^verbatim>\<open>print\<close>, with any list of arguments, writes the source text
  of each argument (\<^verbatim>\<open>Node::toString\<close> of the parsed argument), one after the other, and
  returns a \<open>None\<close> node at the position of the call. No argument is evaluated: the
  Environment is as it was. The source text of a number is what the library prints for
  it, with the trailing zeros cut; of a string, its text escaped again, between quotes;
  of an identifier, of \<^verbatim>\<open>none\<close> and of an operator, its text; of a binary operation, the
  left operand, the operator and the right operand with one space between them; of a
  unary operation, the operator and then the operand; of an assignment, the name,
  \<^verbatim>\<open> = \<close> and the expression; of a call, the name and, between parentheses, the
  arguments with \<^verbatim>\<open>, \<close> between them. So \<^verbatim>\<open>print(f(x, y), g())\<close> writes \<^verbatim>\<open>f(x, y)g()\<close>,
  \<^verbatim>\<open>print(-z, q = w, none)\<close> writes \<^verbatim>\<open>-zq = wnone\<close> and binds nothing, and
  \<^verbatim>\<open>print(1 / 0, y)\<close> returns \<open>None\<close> and writes the text of \<^verbatim>\<open>1 / 0\<close> and of \<^verbatim>\<open>y\<close>, although
  evaluating \<^verbatim>\<open>1 / 0\<close> raises "dividing by 0" and evaluating \<^verbatim>\<open>y\<close> in the empty
  Environment raises "unknown variable".
\<close>

theorem print_renders_source_text:
  "5 \<le> n \<Longrightarrow>
     evaluateNode h (Call (Identifier ''print'' pn) args p) s
       = (Inr (None' p), s\<lparr>console := console s @ concat (map (toString h) args)\<rparr>)
   \<and> map' (snd (evaluateNode h (Call (Identifier ''print'' pn) args p) s)) = map' s
   \<and> toString h (Num v p1) = cutTrailingZeros h (to_string h v)
   \<and> toString h (String txt p2) = [CHR 0x27] @ escapedToEscapes h txt @ [CHR 0x27]
   \<and> toString h (Identifier x p3) = x
   \<and> toString h (None' p4) = ''none''
   \<and> toString h (punctuation c p5) = [c]
   \<and> toString h (Bin l r op p6) = toString h l @ '' '' @ toString h op @ '' '' @ toString h r
   \<and> toString h (Una t op p7) = toString h op @ toString h t
   \<and> toString h (Assign name e p8) = toString h name @ '' = '' @ toString h e
   \<and> toString h (Call name xs p9) = toString h name @ ''('' @ join_args (map (toString h) xs) @ '')''
   \<and> join_args [] = []
   \<and> join_args [a] = a
   \<and> join_args (a # b # bs) = a @ '', '' @ join_args (b # bs)
   \<and> evaluate n h ''print(f(x, y), g())'' s
       = Some (Inr (None' (Position 0 19)), s\<lparr>console := console s @ ''f(x, y)g()''\<rparr>)
   \<and> evaluate n h ''print(-z, q = w, none)'' s
       = Some (Inr (None' (Position 0 22)), s\<lparr>console := console s @ ''-zq = wnone''\<rparr>)
   \<and> evaluate n h (''print('' @ [CHR 0x27, CHR ''a'', CHR 0x27] @ '', 2.50)'') s
       = Some (Inr (None' (Position 0 16)),
               s\<lparr>console := console s @ [CHR 0x27] @ escapedToEscapes h ''a'' @ [CHR 0x27]
                                          @ cutTrailingZeros h (to_string h (atof ''2.50''))\<rparr>)
   \<and> evaluate n h ''print(1 / 0, y)'' s
       = Some (Inr (None' (Position 0 15)),
               s\<lparr>console := console s @ (cutTrailingZeros h (to_string h (atof ''1'')) @ '' / ''
                                          @ cutTrailingZeros h (to_string h (atof ''0''))) @ ''y''\<rparr>)
   \<and> evaluate n h ''1 / 0'' s = Some (Inl (Error [''dividing by 0''] (Position 4 5)), s)
   \<and> evaluate n h ''y'' fresh = Some (Inl (Error [''unknown variable''] (Position 0 1)), fresh)"
proof -
  assume "5 \<le> n"
  then obtain m where n: "n = Suc (Suc (Suc (Suc (Suc m))))"
    using fuel5 by blast
  have 1: "evaluateNode h (Call (Identifier ''print'' pn) args p) s
       = (Inr (None' p), s\<lparr>console := console s @ concat (map (toString h) args)\<rparr>)"
    by (simp add: builtinPrint_def none_def)
  have 2: "map' (snd (evaluateNode h (Call (Identifier ''print'' pn) args p) s)) = map' s"
    by (simp add: builtinPrint_def)
  have 3: "toString h (Num v p1) = cutTrailingZeros h (to_string h v)"
    "toString h (String txt p2) = [CHR 0x27] @ escapedToEscapes h txt @ [CHR 0x27]"
    "toString h (Identifier x p3) = x"
    "toString h (None' p4) = ''none''"
    "toString h (Bin l r op p6) = toString h l @ '' '' @ toString h op @ '' '' @ toString h r"
    "toString h (Una t op p7) = toString h op @ toString h t"
    "toString h (Assign name e p8) = toString h name @ '' = '' @ toString h e"
    "toString h (Call name xs p9) = toString h name @ ''('' @ join_args (map (toString h) xs) @ '')''"
    by simp_all
  have 4: "join_args [] = []" "join_args [a] = a"
    "join_args (a # b # bs) = a @ '', '' @ join_args (b # bs)"
    by simp_all
  show ?thesis
    unfolding n
    using 1 2 3 4 toString_punctuation [of h c p5] evaluate_print_calls evaluate_print_una_assign_none
      evaluate_print_string_number evaluate_print evaluate_1_by_0 evaluate_y_unbound
    by blast
qed

theorem print_renders_source_text_witness:
  "\<forall>h s. evaluateNode h (Call (Identifier ''print'' (Position 0 5)) [Identifier ''y'' (Position 6 7)] (Position 0 8)) s
           = (Inr (None' (Position 0 8)), s\<lparr>console := console s @ ''y''\<rparr>)"
  using print_renders_source_text [of 5] by simp

lemma evaluate_floor_3_7:
  "evaluate (Suc (Suc (Suc (Suc (Suc m))))) h ''floor(3.7)'' s = Some (Inr (Num (f64_of_nat 3) (Position 6 9)), s)"
  by (simp add: lex_run parse_run f64_run eval_run cong: weak)

lemma evaluate_floor_1_2:
  "evaluate (Suc (Suc (Suc (Suc (Suc m))))) h ''floor(1, 2)'' s
     = Some (Inl (Error [''expected args '', ''1'', '' (found '', ''2'', '')''] (Position 0 5)), s)"
  by (simp add: lex_run parse_run f64_run eval_run cong: weak)

lemma evaluate_floor_minus_3_7:
  "evaluate (Suc (Suc (Suc (Suc (Suc m))))) h ''floor(-3.7)'' s
     = Some (Inl (Undefined ''uint64_t of a float64 out of its range''), s)"
  by (simp add: lex_run parse_run f64_run eval_run cong: weak)

lemma evaluate_minus_3_7:
  "evaluate (Suc (Suc (Suc (Suc (Suc m))))) h ''-3.7'' s = Some (Inr (Num (f64_neg (atof ''3.7'')) (Position 1 4)), s)"
  by (simp add: lex_run parse_run f64_run eval_run cong: weak)

lemma f64_is_3_7: "f64_is (f64_neg (atof ''3.7'')) (- 8331659310635418) (2 ^ 51)"
  by (simp add: f64_run cong: weak)

lemma floor_arity:
  "length args \<noteq> 1 \<Longrightarrow>
     evaluateNode h (Call (Identifier ''floor'' pn) args p) s
       = (Inl (Error [''expected args '', ''1'', '' (found '', digits_of (length args), '')''] pn), s)"
  by (simp add: expectArgsCount_def digits_of.simps)

lemma floor_argument_raises:
  "evaluateNode h a s = (Inl f, s1) \<Longrightarrow>
     evaluateNode h (Call (Identifier ''floor'' pn) [a] p) s = (Inl f, s1)"
  by (simp add: expectArgsCount_def)

lemma floor_type:
  "evaluateNode h a s = (Inr v, s1) \<Longrightarrow> kind v \<noteq> KNum \<Longrightarrow>
     evaluateNode h (Call (Identifier ''floor'' pn) [a] p) s
       = (Inl (Error [''expected a value with type '', kindToString h KNum,
                      '' (found '', kindToString h (kind v), '')''] (pos a)), s1)"
  by (simp add: expectArgsCount_def expectType_def)

lemma floor_in_range:
  "evaluateNode h a s = (Inr (Num x xp), s1) \<Longrightarrow> f64_to_uint64 x = Some u \<Longrightarrow>
     evaluateNode h (Call (Identifier ''floor'' pn) [a] p) s = (Inr (Num (f64_of_nat u) xp), s1)"
  by (simp add: expectArgsCount_def expectType_def)

lemma floor_out_of_range:
  "evaluateNode h a s = (Inr (Num x xp), s1) \<Longrightarrow> f64_to_uint64 x = None \<Longrightarrow>
     evaluateNode h (Call (Identifier ''floor'' pn) [a] p) s
       = (Inl (Undefined ''uint64_t of a float64 out of its range''), s1)"
  by (simp add: expectArgsCount_def expectType_def)

text \<open>
  C4. The builtin \<^verbatim>\<open>floor\<close> raises the arity error unless it has exactly one argument; it
  evaluates the argument, and raises the type error when the value is not a number;
  a number is converted to \<^verbatim>\<open>uint64_t\<close> and back. The conversion truncates toward zero
  where C++ defines it, so \<^verbatim>\<open>floor(3.7)\<close> is 3 and \<^verbatim>\<open>floor(1, 2)\<close> raises the arity error.
  It is undefined for a number at or below \<open>- 1\<close>: \<^verbatim>\<open>-3.7\<close> evaluates to the number
  \<open>- 3.7\<close>, and \<^verbatim>\<open>floor(-3.7)\<close> converts it, so the code does not truncate \<open>- 3.7\<close> to
  \<open>- 3\<close>.
\<close>

theorem floor_converts_through_uint64:
  "5 \<le> n \<Longrightarrow>
     (length args \<noteq> 1 \<longrightarrow>
        evaluateNode h (Call (Identifier ''floor'' pn) args p) s
          = (Inl (Error [''expected args '', ''1'', '' (found '', digits_of (length args), '')''] pn), s))
   \<and> (evaluateNode h a s = (Inl f, s1) \<longrightarrow>
        evaluateNode h (Call (Identifier ''floor'' pn) [a] p) s = (Inl f, s1))
   \<and> (evaluateNode h a s = (Inr v, s1) \<and> kind v \<noteq> KNum \<longrightarrow>
        evaluateNode h (Call (Identifier ''floor'' pn) [a] p) s
          = (Inl (Error [''expected a value with type '', kindToString h KNum,
                         '' (found '', kindToString h (kind v), '')''] (pos a)), s1))
   \<and> (evaluateNode h a s = (Inr (Num x xp), s1) \<and> f64_to_uint64 x = Some u \<longrightarrow>
        evaluateNode h (Call (Identifier ''floor'' pn) [a] p) s = (Inr (Num (f64_of_nat u) xp), s1))
   \<and> (evaluateNode h a s = (Inr (Num x xp), s1) \<and> f64_to_uint64 x = None \<longrightarrow>
        evaluateNode h (Call (Identifier ''floor'' pn) [a] p) s
          = (Inl (Undefined ''uint64_t of a float64 out of its range''), s1))
   \<and> evaluate n h ''floor(3.7)'' s = Some (Inr (Num (f64_of_nat 3) (Position 6 9)), s)
   \<and> f64_is (f64_of_nat 3) 3 1
   \<and> evaluate n h ''floor(1, 2)'' s
       = Some (Inl (Error [''expected args '', ''1'', '' (found '', ''2'', '')''] (Position 0 5)), s)
   \<and> evaluate n h ''-3.7'' s = Some (Inr (Num (f64_neg (atof ''3.7'')) (Position 1 4)), s)
   \<and> f64_is (f64_neg (atof ''3.7'')) (- 8331659310635418) (2 ^ 51)
   \<and> evaluate n h ''floor(-3.7)'' s
       = Some (Inl (Undefined ''uint64_t of a float64 out of its range''), s)"
proof -
  assume "5 \<le> n"
  then obtain m where n: "n = Suc (Suc (Suc (Suc (Suc m))))"
    using fuel5 by blast
  show ?thesis
    unfolding n
    using floor_arity [of args h pn p s] floor_argument_raises [of h a s f s1 pn p]
      floor_type [of h a s v s1 pn p] floor_in_range [of h a s x xp s1 u pn p]
      floor_out_of_range [of h a s x xp s1 pn p]
      evaluate_floor_3_7 evaluate_floor_1_2 evaluate_minus_3_7 evaluate_floor_minus_3_7
      f64_is_small(3) f64_is_3_7
    by blast
qed

theorem floor_converts_through_uint64_witness:
  "\<forall>h s. evaluate 5 h ''floor(-3.7)'' s
           = Some (Inl (Undefined ''uint64_t of a float64 out of its range''), s)
       \<and> evaluate 5 h ''floor(3.7)'' s = Some (Inr (Num (f64_of_nat 3) (Position 6 9)), s)"
  using floor_converts_through_uint64 [of 5] by simp

subsection \<open>Binary operators\<close>

lemma evaluate_1_plus_x_string:
  "evaluate (Suc (Suc (Suc (Suc (Suc m))))) h (''1 + '' @ [CHR 0x27, CHR ''x'', CHR 0x27]) s
     = Some (Inl (Error [''unkwnon bin `'', ''+'', ''` between different types (`'', kindToString h KNum,
                         ''` and `'', kindToString h KString, ''`)''] (Position 2 3)), s)"
  by (simp add: lex_run parse_run f64_run eval_run cong: weak)

lemma evaluate_two_assignments_multiplied:
  "evaluate (Suc (Suc (Suc (Suc (Suc m))))) h ''(x = 1) * (y = 2)'' fresh
     = Some (Inl (Error [''type `'', kindToString h KNone, ''` does not support bin''] (Position 8 9)),
             \<lparr>map' = [(''x'', Num (f64_of_nat 1) (Position 5 6)), (''y'', Num (f64_of_nat 2) (Position 15 16))],
                console = []\<rparr>)"
  by (simp add: lex_run parse_run f64_run eval_run cong: weak)

lemma evaluate_5_by_0:
  "evaluate (Suc (Suc (Suc (Suc (Suc m))))) h ''5 / 0'' s = Some (Inl (Error [''dividing by 0''] (Position 4 5)), s)"
  by (simp add: lex_run parse_run f64_run eval_run cong: weak)

lemma bin_left_raises:
  "evaluateNode h l s = (Inl f, s1) \<Longrightarrow> evaluateNode h (Bin l r op p) s = (Inl f, s1)"
  by simp

lemma bin_right_raises:
  "evaluateNode h l s = (Inr a, s1) \<Longrightarrow> evaluateNode h r s1 = (Inl f, s2) \<Longrightarrow>
     evaluateNode h (Bin l r op p) s = (Inl f, s2)"
  by simp

lemma bin_values:
  "evaluateNode h l s = (Inr a, s1) \<Longrightarrow> evaluateNode h r s1 = (Inr b, s2) \<Longrightarrow>
     evaluateNode h (Bin l r op p) s = (evaluateBin_values h op a b, s2)"
  by simp

lemma bin_kinds_differ:
  "evaluateNode h l s = (Inr a, s1) \<Longrightarrow> evaluateNode h r s1 = (Inr b, s2) \<Longrightarrow> kind a \<noteq> kind b \<Longrightarrow>
     evaluateNode h (Bin l r op p) s
       = (Inl (Error [''unkwnon bin `'', toString h op, ''` between different types (`'',
                      kindToString h (kind a), ''` and `'', kindToString h (kind b), ''`)''] (pos op)), s2)"
  by (simp add: evaluateBin_values_def)

text \<open>
  C5. A \<open>Bin\<close> node evaluates its left operand and then, in the Evaluator the left
  operand left, its right operand, whatever the operator is; an operand that raises
  ends the evaluation. When the two values are of different kinds the node raises an
  error at the position of the operator. The code spells the first fragment of its
  message \<^verbatim>\<open>unkwnon bin\<close>. \<^verbatim>\<open>1 + 'x'\<close> raises that error. \<^verbatim>\<open>(x = 1) * (y = 2)\<close> raises
  because \<open>None\<close> values support no binary operator, after both operands were evaluated:
  \<open>x\<close> and \<open>y\<close> are bound.
\<close>

theorem bin_evaluates_both_operands:
  "5 \<le> n \<Longrightarrow>
     (evaluateNode h l s = (Inl f, s1) \<longrightarrow> evaluateNode h (Bin l r op p) s = (Inl f, s1))
   \<and> (evaluateNode h l s = (Inr a, s1) \<and> evaluateNode h r s1 = (Inl f, s2) \<longrightarrow>
        evaluateNode h (Bin l r op p) s = (Inl f, s2))
   \<and> (evaluateNode h l s = (Inr a, s1) \<and> evaluateNode h r s1 = (Inr b, s2) \<and> kind a \<noteq> kind b \<longrightarrow>
        evaluateNode h (Bin l r op p) s
          = (Inl (Error [''unkwnon bin `'', toString h op, ''` between different types (`'',
                         kindToString h (kind a), ''` and `'', kindToString h (kind b), ''`)''] (pos op)), s2))
   \<and> evaluate n h (''1 + '' @ [CHR 0x27, CHR ''x'', CHR 0x27]) s
       = Some (Inl (Error [''unkwnon bin `'', ''+'', ''` between different types (`'', kindToString h KNum,
                           ''` and `'', kindToString h KString, ''`)''] (Position 2 3)), s)
   \<and> evaluate n h ''(x = 1) * (y = 2)'' fresh
       = Some (Inl (Error [''type `'', kindToString h KNone, ''` does not support bin''] (Position 8 9)),
               \<lparr>map' = [(''x'', Num (f64_of_nat 1) (Position 5 6)), (''y'', Num (f64_of_nat 2) (Position 15 16))],
                  console = []\<rparr>)"
proof -
  assume "5 \<le> n"
  then obtain m where n: "n = Suc (Suc (Suc (Suc (Suc m))))"
    using fuel5 by blast
  show ?thesis
    unfolding n
    using bin_left_raises [of h l s f s1 r op p] bin_right_raises [of h l s a s1 r f s2 op p]
      bin_kinds_differ [of h l s a s1 r b s2 op p]
      evaluate_1_plus_x_string evaluate_two_assignments_multiplied
    by blast
qed

theorem bin_evaluates_both_operands_witness:
  "\<forall>h s. evaluate 5 h (''1 + '' @ [CHR 0x27, CHR ''x'', CHR 0x27]) s
           = Some (Inl (Error [''unkwnon bin `'', ''+'', ''` between different types (`'', kindToString h KNum,
                               ''` and `'', kindToString h KString, ''`)''] (Position 2 3)), s)"
  using bin_evaluates_both_operands [of 5] by simp

lemma plus_2_53_and_1:
  "evaluateOperationNum KPlus (f64_of_nat 9007199254740992) (f64_of_nat 1) (Position 19 20)
     = Inr (f64_of_nat 9007199254740992)"
  by (simp add: evaluateOperationNum_def f64_run cong: weak)

lemma f64_is_2_53:
  "f64_is (f64_of_nat 9007199254740992) 9007199254740992 1"
  "\<not> f64_is (f64_of_nat 9007199254740992) 9007199254740993 1"
  by (simp_all add: f64_run cong: weak)

text \<open>
  The sum of the numbers \<open>2 ^ 53\<close> and 1 that \<^verbatim>\<open>+\<close> returns is the number \<open>2 ^ 53\<close>, not
  the exact sum \<open>2 ^ 53 + 1\<close>: a \<^verbatim>\<open>float64\<close> has 53 bits of mantissa.
\<close>

theorem plus_is_not_exact:
  "evaluateOperationNum KPlus (f64_of_nat 9007199254740992) (f64_of_nat 1) (Position 19 20)
     = Inr (f64_of_nat 9007199254740992)
   \<and> f64_is (f64_of_nat 9007199254740992) 9007199254740992 1
   \<and> f64_is (f64_of_nat 1) 1 1
   \<and> \<not> f64_is (f64_of_nat 9007199254740992) (9007199254740992 + 1) 1"
  using plus_2_53_and_1 f64_is_2_53 f64_is_small(4) by simp

text \<open>
  \<^verbatim>\<open>evaluateBin\<close> on two numbers \<open>Num a pa\<close> and \<open>Num b pb\<close>, the values of its operands:
  the spans \<open>pa\<close> and \<open>pb\<close> are the ones these values carry (\<^verbatim>\<open>left.pos\<close> and \<^verbatim>\<open>right.pos\<close>
  of the code), which are not always the spans of the operand nodes.
\<close>

lemma bin_numbers:
  "evaluateNode h l s = (Inr (Num a pa), s1) \<Longrightarrow> evaluateNode h r s1 = (Inr (Num b pb), s2) \<Longrightarrow>
     evaluateNode h (Bin l r op p) s =
       ((if kind op = KPlus then Inr (Num (f64_add a b) (Position (startPos pa) (endPos pb)))
         else if kind op = KMinus then Inr (Num (f64_sub a b) (Position (startPos pa) (endPos pb)))
         else if kind op = KStar then Inr (Num (f64_mul a b) (Position (startPos pa) (endPos pb)))
         else if kind op = KSlash
         then (if f64_is_zero b then Inl (Error [''dividing by 0''] pb)
               else Inr (Num (f64_div a b) (Position (startPos pa) (endPos pb))))
         else Inl (Panic ''unreachable'')), s2)"
  by (cases "kind op") (simp_all add: evaluateBin_values_def evaluateOperationNum_def)

text \<open>
  C6, amended. For a \<open>Bin\<close> node whose two operands evaluate to numbers, \<^verbatim>\<open>+\<close>, \<^verbatim>\<open>-\<close> and
  \<^verbatim>\<open>*\<close> return the \<^verbatim>\<open>float64\<close> sum, difference and product of the two (the exact result
  rounded to the nearest \<^verbatim>\<open>float64\<close>), \<^verbatim>\<open>/\<close> with a right operand that is zero raises
  the error "dividing by 0" and returns nothing, and \<^verbatim>\<open>/\<close> with any other right operand
  returns the \<^verbatim>\<open>float64\<close> quotient. The sum, the difference (of a larger and a smaller)
  and the product of whole numbers below \<open>2 ^ 53\<close> are exact when they are below
  \<open>2 ^ 53\<close>, and so is their quotient when it is a whole number. \<^verbatim>\<open>5 / 0\<close> raises the
  division-by-zero error.
\<close>

theorem bin_on_numbers:
  "5 \<le> n \<Longrightarrow>
     (evaluateNode h l s = (Inr (Num a pa), s1) \<and> evaluateNode h r s1 = (Inr (Num b pb), s2) \<longrightarrow>
        evaluateNode h (Bin l r op p) s =
          ((if kind op = KPlus then Inr (Num (f64_add a b) (Position (startPos pa) (endPos pb)))
            else if kind op = KMinus then Inr (Num (f64_sub a b) (Position (startPos pa) (endPos pb)))
            else if kind op = KStar then Inr (Num (f64_mul a b) (Position (startPos pa) (endPos pb)))
            else if kind op = KSlash
            then (if f64_is_zero b then Inl (Error [''dividing by 0''] pb)
                  else Inr (Num (f64_div a b) (Position (startPos pa) (endPos pb))))
            else Inl (Panic ''unreachable'')), s2))
   \<and> (x < 2 ^ 53 \<longrightarrow> f64_is (f64_of_nat x) (int x) 1)
   \<and> (x + y < 2 ^ 53 \<longrightarrow> f64_add (f64_of_nat x) (f64_of_nat y) = f64_of_nat (x + y))
   \<and> (y \<le> x \<and> x < 2 ^ 53 \<longrightarrow> f64_sub (f64_of_nat x) (f64_of_nat y) = f64_of_nat (x - y))
   \<and> (x * y < 2 ^ 53 \<and> x < 2 ^ 53 \<and> y < 2 ^ 53 \<longrightarrow>
        f64_mul (f64_of_nat x) (f64_of_nat y) = f64_of_nat (x * y))
   \<and> (0 < y \<and> x = q * y \<and> x < 2 ^ 53 \<and> y < 2 ^ 53 \<longrightarrow>
        f64_div (f64_of_nat x) (f64_of_nat y) = f64_of_nat q)
   \<and> f64_is_zero (Finite True 0 (- 1074))
   \<and> evaluate n h ''5 / 0'' s = Some (Inl (Error [''dividing by 0''] (Position 4 5)), s)"
proof -
  assume "5 \<le> n"
  then obtain m where n: "n = Suc (Suc (Suc (Suc (Suc m))))"
    using fuel5 by blast
  have z: "f64_is_zero (Finite True 0 (- 1074))"
    by (simp add: f64_is_zero_Finite)
  show ?thesis
    unfolding n
    using bin_numbers [of h l s a pa s1 r b pb s2 op p] evaluate_5_by_0 z
      f64_is_nat [of x] f64_add_nat [of x y] f64_sub_nat [of y x] f64_mul_nat [of x y]
      f64_div_nat [of y x q]
    by blast
qed

theorem bin_on_numbers_witness:
  "\<forall>h s. evaluate 5 h ''5 / 0'' s = Some (Inl (Error [''dividing by 0''] (Position 4 5)), s)"
  using bin_on_numbers [of 5] by simp

subsection \<open>Number tokens\<close>

text \<open>
  A checker that looks at the current character only makes \<^verbatim>\<open>collectSequence\<close> collect
  the longest run of such characters from the cursor on.
\<close>

lemma collectSequence_loop_chars:
  "collectSequence_loop (\<lambda>q. P (curChar q 0)) p r
     = (r @ takeWhile P (drop (exprIndex p) (expr p)),
        p\<lparr>exprIndex := exprIndex p + length (takeWhile P (drop (exprIndex p) (expr p)))\<rparr>)"
proof (induction "\<lambda>q. P (curChar q 0)" p r rule: collectSequence_loop.induct)
  case (1 p r)
  show ?case
  proof (cases "\<not> eof p 0 \<and> P (curChar p 0)")
    case True
    then have lt: "exprIndex p < length (expr p)" and c: "P (expr p ! exprIndex p)"
      by (auto simp: eof_def curChar_def)
    have d: "drop (exprIndex p) (expr p) = expr p ! exprIndex p # drop (Suc (exprIndex p)) (expr p)"
      using lt by (simp add: Cons_nth_drop_Suc)
    have cc: "curChar p 0 = expr p ! exprIndex p"
      using lt by (simp add: curChar_def)
    show ?thesis
      using True "1.hyps" [OF True] d c cc
      by (subst collectSequence_loop.simps) simp
  next
    case False
    have "takeWhile P (drop (exprIndex p) (expr p)) = []"
    proof (cases "exprIndex p < length (expr p)")
      case lt: True
      then have "\<not> P (expr p ! exprIndex p)"
        using False by (simp add: eof_def curChar_def)
      moreover have "drop (exprIndex p) (expr p) = expr p ! exprIndex p # drop (Suc (exprIndex p)) (expr p)"
        using lt by (simp add: Cons_nth_drop_Suc)
      ultimately show ?thesis by simp
    next
      case False
      then show ?thesis by simp
    qed
    with False show ?thesis
      by (subst collectSequence_loop.simps) auto
  qed
qed

lemma collectSequence_chars:
  "takeWhile P (drop (exprIndex p) (expr p)) \<noteq> [] \<Longrightarrow>
   collectSequence (\<lambda>q. P (curChar q 0)) p
     = (takeWhile P (drop (exprIndex p) (expr p)),
        p\<lparr>exprIndex := exprIndex p + length (takeWhile P (drop (exprIndex p) (expr p))) - 1\<rparr>)"
  by (simp add: collectSequence_def collectSequence_loop_chars)

lemma collectNumToken_chars:
  assumes "seq = takeWhile (\<lambda>c. isNumChar c False) (drop (exprIndex p) (expr p))" and "seq \<noteq> []"
    and "i = exprIndex p"
  shows "collectNumToken p =
    ((if 1 < count_list seq CHR ''.''
      then Inl (Error [''number cannot include more than one dot''] (Position i (i + length seq)))
      else if last seq = CHR ''.''
      then Inl (Error [''number cannot end with a dot (correction: `'', butlast seq, ''`)'']
                      (Position i (i + length seq)))
      else if i + length seq < length (expr p) \<and> isIdentifierChar (expr p ! (i + length seq)) False
      then Inl (Error [''number cannot include part of identifier (correction: `'', seq, '' '',
                       [expr p ! (i + length seq)], ''...`)''] (Position i (i + length seq + 1)))
      else Inr (Num (atof seq) (Position i (i + length seq)))),
     p\<lparr>exprIndex := i + length seq - 1\<rparr>)"
proof -
  have len: "0 < length seq" using assms(2) by simp
  have cs: "collectSequence (\<lambda>q. isNumChar (curChar q 0) False) p = (seq, p\<lparr>exprIndex := i + length seq - 1\<rparr>)"
    using collectSequence_chars [of "\<lambda>c. isNumChar c False" p] assms by simp
  have e: "eof (p\<lparr>exprIndex := i + length seq - 1\<rparr>) 1 \<longleftrightarrow> \<not> i + length seq < length (expr p)"
    using len by (auto simp: eof_def)
  have c: "i + length seq < length (expr p) \<Longrightarrow>
           curChar (p\<lparr>exprIndex := i + length seq - 1\<rparr>) 1 = expr p ! (i + length seq)"
    using len by (simp add: curChar_def nat_add_distrib of_nat_diff)
  have q: "endPos (curPos (p\<lparr>exprIndex := i + length seq - 1\<rparr>) 1) = i + length seq + 1"
    using len by (simp add: curPos_def)
  have s1: "Suc (i + length seq - 1) = i + length seq"
    using len by simp
  show ?thesis
    unfolding collectNumToken_def cs using assms(2) assms(3) e c q s1
    by (auto simp: Let_def)
qed

lemma evaluate_0_0_1:
  "evaluate (Suc (Suc (Suc (Suc (Suc m))))) h ''0.0.1'' s
     = Some (Inl (Error [''number cannot include more than one dot''] (Position 0 5)), s)"
  by (simp add: lex_run parse_run f64_run eval_run cong: weak)

lemma evaluate_2_dot:
  "evaluate (Suc (Suc (Suc (Suc (Suc m))))) h ''2.'' s
     = Some (Inl (Error [''number cannot end with a dot (correction: `'', ''2'', ''`)''] (Position 0 2)), s)"
  by (simp add: lex_run parse_run f64_run eval_run cong: weak)

lemma evaluate_123abc:
  "evaluate (Suc (Suc (Suc (Suc (Suc m))))) h ''123abc'' s
     = Some (Inl (Error [''number cannot include part of identifier (correction: `'', ''123'', '' '', ''a'',
                         ''...`)''] (Position 0 4)), s)"
  by (simp add: lex_run parse_run f64_run eval_run cong: weak)

lemma evaluate_12_5:
  "evaluate (Suc (Suc (Suc (Suc (Suc m))))) h ''12.5'' s = Some (Inr (Num (atof ''12.5'') (Position 0 4)), s)"
  by (simp add: lex_run parse_run eval_run cong: weak)

lemma collectNumToken_1_2_dot:
  "fst (collectNumToken (initial ''1.2.''))
     = Inl (Error [''number cannot include more than one dot''] (Position 0 4))"
  by (simp add: initial_def lex_run cong: weak)

lemma collectNumToken_2_dot_x:
  "fst (collectNumToken (initial ''2.x''))
     = Inl (Error [''number cannot end with a dot (correction: `'', ''2'', ''`)''] (Position 0 2))"
  by (simp add: initial_def lex_run cong: weak)

text \<open>
  The digits and dots of \<^verbatim>\<open>1.2.\<close> end in a dot, and the error is the one for more than one
  dot, not the one for a trailing dot. The number in \<^verbatim>\<open>2.x\<close> is followed by the
  identifier character \<^verbatim>\<open>x\<close>, and the error is the one for a trailing dot, not the one
  for a part of an identifier.
\<close>

theorem number_errors_overlap:
  "takeWhile (\<lambda>c. isNumChar c False) ''1.2.'' = ''1.2.''
   \<and> last ''1.2.'' = CHR ''.''
   \<and> fst (collectNumToken (initial ''1.2.''))
       = Inl (Error [''number cannot include more than one dot''] (Position 0 4))
   \<and> takeWhile (\<lambda>c. isNumChar c False) ''2.x'' = ''2.''
   \<and> isIdentifierChar (CHR ''x'') False
   \<and> fst (collectNumToken (initial ''2.x''))
       = Inl (Error [''number cannot end with a dot (correction: `'', ''2'', ''`)''] (Position 0 2))"
  using collectNumToken_1_2_dot collectNumToken_2_dot_x
  by (simp add: isNumChar_def isDigit_def isIdentifierChar_def isLetter_def)

text \<open>
  C9, amended. \<^verbatim>\<open>collectNumToken\<close>, called where the text has a digit, collects the
  longest run \<open>seq\<close> of digits and dots from the cursor \<open>i\<close> on and checks it in this
  order, the first check that fails giving the error: more than one dot raises "number
  cannot include more than one dot"; otherwise a last character that is a dot raises
  "number cannot end with a dot"; otherwise an identifier character right after the
  run raises "number cannot include part of identifier". A run that passes the three
  checks is the \<open>Num\<close> token of the \<^verbatim>\<open>float64\<close> that \<^verbatim>\<open>atof\<close> reads from it, spanning the run.
  So \<^verbatim>\<open>0.0.1\<close>, \<^verbatim>\<open>2.\<close> and \<^verbatim>\<open>123abc\<close> each raise a lexical error, and \<^verbatim>\<open>12.5\<close> is the number
  \<open>25 / 2\<close>.
\<close>

theorem number_token_checks_in_order:
  "seq = takeWhile (\<lambda>c. isNumChar c False) (drop (exprIndex p) (expr p)) \<Longrightarrow> seq \<noteq> [] \<Longrightarrow>
   i = exprIndex p \<Longrightarrow> 5 \<le> n \<Longrightarrow>
     (1 < count_list seq CHR ''.'' \<longrightarrow>
        fst (collectNumToken p)
          = Inl (Error [''number cannot include more than one dot''] (Position i (i + length seq))))
   \<and> (count_list seq CHR ''.'' \<le> 1 \<and> last seq = CHR ''.'' \<longrightarrow>
        fst (collectNumToken p)
          = Inl (Error [''number cannot end with a dot (correction: `'', butlast seq, ''`)'']
                       (Position i (i + length seq))))
   \<and> (count_list seq CHR ''.'' \<le> 1 \<and> last seq \<noteq> CHR ''.''
        \<and> i + length seq < length (expr p) \<and> isIdentifierChar (expr p ! (i + length seq)) False \<longrightarrow>
        fst (collectNumToken p)
          = Inl (Error [''number cannot include part of identifier (correction: `'', seq, '' '',
                        [expr p ! (i + length seq)], ''...`)''] (Position i (i + length seq + 1))))
   \<and> (count_list seq CHR ''.'' \<le> 1 \<and> last seq \<noteq> CHR ''.''
        \<and> \<not> (i + length seq < length (expr p) \<and> isIdentifierChar (expr p ! (i + length seq)) False) \<longrightarrow>
        fst (collectNumToken p) = Inr (Num (atof seq) (Position i (i + length seq))))
   \<and> evaluate n h ''0.0.1'' s
       = Some (Inl (Error [''number cannot include more than one dot''] (Position 0 5)), s)
   \<and> evaluate n h ''2.'' s
       = Some (Inl (Error [''number cannot end with a dot (correction: `'', ''2'', ''`)''] (Position 0 2)), s)
   \<and> evaluate n h ''123abc'' s
       = Some (Inl (Error [''number cannot include part of identifier (correction: `'', ''123'', '' '', ''a'',
                           ''...`)''] (Position 0 4)), s)
   \<and> evaluate n h ''12.5'' s = Some (Inr (Num (atof ''12.5'') (Position 0 4)), s)
   \<and> f64_is (atof ''12.5'') 25 2"
proof -
  assume seq: "seq = takeWhile (\<lambda>c. isNumChar c False) (drop (exprIndex p) (expr p))" "seq \<noteq> []"
    and i: "i = exprIndex p" and "5 \<le> n"
  then obtain m where n: "n = Suc (Suc (Suc (Suc (Suc m))))"
    using fuel5 by blast
  note t = collectNumToken_chars [OF seq i]
  have 1: "1 < count_list seq CHR ''.'' \<longrightarrow>
        fst (collectNumToken p)
          = Inl (Error [''number cannot include more than one dot''] (Position i (i + length seq)))"
    by (simp add: t)
  have 2: "count_list seq CHR ''.'' \<le> 1 \<and> last seq = CHR ''.'' \<longrightarrow>
        fst (collectNumToken p)
          = Inl (Error [''number cannot end with a dot (correction: `'', butlast seq, ''`)'']
                       (Position i (i + length seq)))"
    by (simp add: t)
  have 3: "count_list seq CHR ''.'' \<le> 1 \<and> last seq \<noteq> CHR ''.''
        \<and> i + length seq < length (expr p) \<and> isIdentifierChar (expr p ! (i + length seq)) False \<longrightarrow>
        fst (collectNumToken p)
          = Inl (Error [''number cannot include part of identifier (correction: `'', seq, '' '',
                        [expr p ! (i + length seq)], ''...`)''] (Position i (i + length seq + 1)))"
    by (simp add: t)
  have 4: "count_list seq CHR ''.'' \<le> 1 \<and> last seq \<noteq> CHR ''.''
        \<and> \<not> (i + length seq < length (expr p) \<and> isIdentifierChar (expr p ! (i + length seq)) False) \<longrightarrow>
        fst (collectNumToken p) = Inr (Num (atof seq) (Position i (i + length seq)))"
    by (auto simp: t)
  show ?thesis
    unfolding n
    using 1 2 3 4 evaluate_0_0_1 evaluate_2_dot evaluate_123abc evaluate_12_5 f64_is_12_5
    by blast
qed

theorem number_token_checks_in_order_witness:
  "\<forall>h s. ''2.'' = takeWhile (\<lambda>c. isNumChar c False) (drop (exprIndex (initial ''2.'')) (expr (initial ''2.'')))
       \<and> fst (collectNumToken (initial ''2.''))
           = Inl (Error [''number cannot end with a dot (correction: `'', ''2'', ''`)''] (Position 0 2))
       \<and> evaluate 5 h ''123abc'' s
           = Some (Inl (Error [''number cannot include part of identifier (correction: `'', ''123'', '' '', ''a'',
                               ''...`)''] (Position 0 4)), s)"
proof -
  have seq: "''2.'' = takeWhile (\<lambda>c. isNumChar c False) (drop (exprIndex (initial ''2.'')) (expr (initial ''2.'')))"
    by (simp add: initial_def isNumChar_def isDigit_def)
  have ne: "''2.'' \<noteq> []"
    by simp
  have i: "0 = exprIndex (initial ''2.'')"
    by (simp add: initial_def)
  have n: "(5::nat) \<le> 5"
    by simp
  show ?thesis
    using seq number_token_checks_in_order [OF seq ne i n] by simp
qed

end
